theory Spec2Isabelle
  imports Complex_Main
begin

section \<open>Dates\<close>

text \<open>
  A value of Python's \<^verbatim>\<open>datetime.date\<close> is represented by its proleptic Gregorian
  ordinal (\<^verbatim>\<open>date.toordinal()\<close>): day 1 is 0001-01-01 and \<^verbatim>\<open>date.max\<close>, 9999-12-31, is
  day 3652059. Comparing two dates, \<^verbatim>\<open>(a - b).days\<close> and \<^verbatim>\<open>a + timedelta(days=k)\<close> are then
  the integer operations. The clock (\<^verbatim>\<open>datetime.now().date()\<close>) is an argument \<open>hoy\<close> of
  every function that reads it. Ordinals are unbounded here: the \<^verbatim>\<open>OverflowError\<close> of a sum
  past \<^verbatim>\<open>date.max\<close>, which a clock in the last two weeks of the year 9999 would cause, is
  not modelled.
\<close>

type_synonym date = int

definition date_min :: date where
  "date_min = 1"

definition date_max :: date where
  "date_max = 3652059"

text \<open>The first day whose year has four digits, 1000-01-01.\<close>

definition fecha_1000 :: date where
  "fecha_1000 = 364878"

definition is_leap :: "int \<Rightarrow> bool" where
  "is_leap y = (y mod 4 = 0 \<and> (y mod 100 \<noteq> 0 \<or> y mod 400 = 0))"

definition days_before_year :: "int \<Rightarrow> int" where
  "days_before_year y = (y - 1) * 365 + (y - 1) div 4 - (y - 1) div 100 + (y - 1) div 400"

definition days_in_month :: "int \<Rightarrow> int \<Rightarrow> int" where
  "days_in_month y m =
     (if m = 2 then (if is_leap y then 29 else 28)
      else if m = 4 \<or> m = 6 \<or> m = 9 \<or> m = 11 then 30 else 31)"

definition days_before_month :: "int \<Rightarrow> int \<Rightarrow> int" where
  "days_before_month y m =
     (if m \<le> 1 then 0 else if m = 2 then 31
      else (if is_leap y then 1 else 0) +
        (if m = 3 then 59 else if m = 4 then 90 else if m = 5 then 120
         else if m = 6 then 151 else if m = 7 then 181 else if m = 8 then 212
         else if m = 9 then 243 else if m = 10 then 273 else if m = 11 then 304
         else 334))"

definition ymd2ord :: "int \<Rightarrow> int \<Rightarrow> int \<Rightarrow> date" where
  "ymd2ord y m d = days_before_year y + days_before_month y m + d"

text \<open>
  The inverse splits the days since 0001-01-01 into 400-year, 100-year, 4-year and 1-year
  cycles. The last day of a 400-year or of a 4-year cycle belongs to the cycle's last year,
  which is why the two quotients are capped at 3.
\<close>

definition month_of :: "int \<Rightarrow> int \<Rightarrow> int" where
  "month_of y doy =
     (if doy \<le> days_before_month y 2 then 1
      else if doy \<le> days_before_month y 3 then 2
      else if doy \<le> days_before_month y 4 then 3
      else if doy \<le> days_before_month y 5 then 4
      else if doy \<le> days_before_month y 6 then 5
      else if doy \<le> days_before_month y 7 then 6
      else if doy \<le> days_before_month y 8 then 7
      else if doy \<le> days_before_month y 9 then 8
      else if doy \<le> days_before_month y 10 then 9
      else if doy \<le> days_before_month y 11 then 10
      else if doy \<le> days_before_month y 12 then 11
      else 12)"

definition ord2ymd :: "date \<Rightarrow> int \<times> int \<times> int" where
  "ord2ymd n =
     (let n0 = n - 1;
          n400 = n0 div 146097; r400 = n0 mod 146097;
          n100 = min 3 (r400 div 36524); r100 = r400 - 36524 * n100;
          n4 = r100 div 1461; r4 = r100 mod 1461;
          n1 = min 3 (r4 div 365); r1 = r4 - 365 * n1;
          y = 400 * n400 + 100 * n100 + 4 * n4 + n1 + 1;
          m = month_of y (r1 + 1)
      in (y, m, r1 + 1 - days_before_month y m))"

section \<open>Records\<close>

text \<open>
  \<^verbatim>\<open>class Libro\<close> and \<^verbatim>\<open>class Prestamo\<close>, with the field types of their constructors'
  annotations; the field \<^verbatim>\<open>id\<close> is called \<open>id_libro\<close> here.
\<close>

record libro =
  id_libro :: int
  titulo :: string
  autor :: string
  stock :: int

record prestamo =
  libro_id :: int
  usuario :: string
  fecha_prestamo :: date
  fecha_devolucion :: date
  devuelto :: bool

text \<open>\<^verbatim>\<open>Prestamo.__init__\<close>; \<open>hoy\<close> is what its \<^verbatim>\<open>datetime.now().date()\<close> returns.\<close>

definition Prestamo_init :: "date \<Rightarrow> int \<Rightarrow> string \<Rightarrow> int \<Rightarrow> prestamo" where
  "Prestamo_init hoy lid usr dias_prestamo =
     \<lparr>libro_id = lid, usuario = usr, fecha_prestamo = hoy,
      fecha_devolucion = hoy + dias_prestamo, devuelto = False\<rparr>"

text \<open>The constructor as every call of the program uses it: \<^verbatim>\<open>dias_prestamo\<close> defaults to 14.\<close>

definition Prestamo :: "date \<Rightarrow> int \<Rightarrow> string \<Rightarrow> prestamo" where
  "Prestamo hoy lid usr = Prestamo_init hoy lid usr 14"

text \<open>
  \<^verbatim>\<open>Prestamo.calcular_multa\<close>. The result is a float in the source; every value it can take
  is a multiple of 0.5 below \<open>2^53\<close>, which binary floating point represents exactly, so the
  model computes it in the rationals.
\<close>

definition calcular_multa :: "prestamo \<Rightarrow> date \<Rightarrow> rat" where
  "calcular_multa p hoy =
     (if devuelto p then 0
      else if hoy \<le> fecha_devolucion p then 0
      else (let dias_retraso = hoy - fecha_devolucion p
            in of_int (max 0 dias_retraso) * (1 / 2)))"

section \<open>The data file\<close>

text \<open>
  What \<^verbatim>\<open>json.load\<close> returns and \<^verbatim>\<open>json.dump\<close> accepts. An object keeps its members in
  the order of the text; a float is kept as its literal.
\<close>

datatype json =
    JNull
  | JBool bool
  | JInt int
  | JFloat string
  | JStr string
  | JArr "json list"
  | JObj "(string \<times> json) list"

text \<open>
  The file \<^verbatim>\<open>biblioteca.json\<close> as \<^verbatim>\<open>open\<close> and \<^verbatim>\<open>json.load\<close> see it: no such file, a text
  that is not JSON, or a JSON text, given by the value it parses to; \<^verbatim>\<open>json.dump\<close> writes
  the text of the value it is given. A file that exists and cannot be opened, or that is
  not text in the platform's encoding, is not modelled.
\<close>

datatype disk = Absent | Malformed | Document json

datatype py_error = OSError | KeyError | TypeError | AttributeError | ValueError

text \<open>
  Whether the write of \<^verbatim>\<open>guardar_datos\<close> goes through: \<open>OpenFault\<close> is a failing
  \<^verbatim>\<open>open(..., 'w')\<close>, which leaves the file as it was; \<open>DumpFault\<close> is a failure after the
  file was opened, hence truncated, which leaves an incomplete text behind.
\<close>

datatype fault = NoFault | OpenFault | DumpFault

subsection \<open>Formatting and parsing dates\<close>

definition digits :: string where
  "digits = ''0123456789''"

definition digit_char :: "int \<Rightarrow> char" where
  "digit_char k = digits ! nat k"

definition is_digit :: "char \<Rightarrow> bool" where
  "is_digit c = (c \<in> set digits)"

definition digit_val :: "char \<Rightarrow> int" where
  "digit_val c = int (length (takeWhile (\<lambda>d. d \<noteq> c) digits))"

definition pad2 :: "int \<Rightarrow> string" where
  "pad2 k = [digit_char (k div 10 mod 10), digit_char (k mod 10)]"

definition pad4 :: "int \<Rightarrow> string" where
  "pad4 k = [digit_char (k div 1000 mod 10), digit_char (k div 100 mod 10),
             digit_char (k div 10 mod 10), digit_char (k mod 10)]"

text \<open>
  The field \<^verbatim>\<open>%Y\<close> as \<^verbatim>\<open>strftime\<close> writes it: CPython hands the format to the C library,
  and the C library of Linux writes the year as its decimal numeral, without leading zeros
  (999 for the year 999, where \<^verbatim>\<open>strptime\<close> asks for four digits).
\<close>

definition year_text :: "int \<Rightarrow> string" where
  "year_text y = dropWhile (\<lambda>c. c = CHR ''0'') (pad4 y)"

text \<open>\<^verbatim>\<open>d.strftime('%Y-%m-%d')\<close>: the year as above, month and day on two digits.\<close>

definition strftime :: "date \<Rightarrow> string" where
  "strftime d =
     (case ord2ymd d of (y, m, dd) \<Rightarrow> year_text y @ ''-'' @ pad2 m @ ''-'' @ pad2 dd)"

fun split_dash :: "string \<Rightarrow> string list" where
  "split_dash [] = [[]]"
| "split_dash (c # cs) =
     (if c = CHR ''-'' then [] # split_dash cs
      else (case split_dash cs of [] \<Rightarrow> [[c]] | f # fs \<Rightarrow> (c # f) # fs))"

definition nonzero_digit :: "char \<Rightarrow> bool" where
  "nonzero_digit c = (is_digit c \<and> c \<noteq> CHR ''0'')"

text \<open>
  The fields \<^verbatim>\<open>%m\<close> and \<^verbatim>\<open>%d\<close> as \<^verbatim>\<open>strptime\<close> matches them:
  \<^verbatim>\<open>1[0-2]|0[1-9]|[1-9]\<close> and \<^verbatim>\<open>3[0-1]|[1-2]\d|0[1-9]|[1-9]| [1-9]\<close>.
\<close>

fun month_token :: "string \<Rightarrow> bool" where
  "month_token [a] = nonzero_digit a"
| "month_token [a, b] =
     ((a = CHR ''1'' \<and> (b = CHR ''0'' \<or> b = CHR ''1'' \<or> b = CHR ''2'')) \<or>
      (a = CHR ''0'' \<and> nonzero_digit b))"
| "month_token _ = False"

fun day_token :: "string \<Rightarrow> bool" where
  "day_token [a] = nonzero_digit a"
| "day_token [a, b] =
     ((a = CHR ''3'' \<and> (b = CHR ''0'' \<or> b = CHR ''1'')) \<or>
      ((a = CHR ''1'' \<or> a = CHR ''2'') \<and> is_digit b) \<or>
      (a = CHR ''0'' \<and> nonzero_digit b) \<or>
      (a = CHR '' '' \<and> nonzero_digit b))"
| "day_token _ = False"

text \<open>\<^verbatim>\<open>int(s)\<close> on a matched field: decimal digits, a leading blank ignored.\<close>

definition field_val :: "string \<Rightarrow> int" where
  "field_val s = foldl (\<lambda>acc c. 10 * acc + digit_val c) 0 (filter is_digit s)"

text \<open>
  \<^verbatim>\<open>datetime.strptime(s, '%Y-%m-%d').date()\<close>: the text has to match the three fields
  exactly, and the fields have to name a day that exists; anything else is a
  \<^verbatim>\<open>ValueError\<close>. Only ASCII digits are taken as digits.
\<close>

definition strptime :: "string \<Rightarrow> py_error + date" where
  "strptime s =
     (case split_dash s of
        [ys, ms, ds] \<Rightarrow>
          if length ys = 4 \<and> list_all is_digit ys \<and> month_token ms \<and> day_token ds
          then (let y = field_val ys; m = field_val ms; d = field_val ds
                in if 1 \<le> y \<and> d \<le> days_in_month y m then Inr (ymd2ord y m d)
                   else Inl ValueError)
          else Inl ValueError
      | _ \<Rightarrow> Inl ValueError)"

section \<open>The library\<close>

record biblioteca =
  libros :: "libro list"
  prestamos :: "prestamo list"

text \<open>What an operation prints, and the notification task it creates.\<close>

datatype mensaje =
    YaExisteLibro int
  | LibroAgregado string
  | YaTienePrestado string
  | LibroNoEncontrado int
  | SinExistencias string
  | LibroPrestado string string date
  | Notificacion string string date
  | PrestamoNoEncontrado string
  | DevolucionTardia rat
  | LibroDevuelto string
  | SinDatosPrevios
  | ErrorLectura

text \<open>An operation returns \<^verbatim>\<open>True\<close> or \<^verbatim>\<open>False\<close> after printing, or an exception leaves it.\<close>

datatype resultado = Returned bool "mensaje list" | Raised py_error

subsection \<open>Saving\<close>

definition to_dict :: "libro \<Rightarrow> json" where
  "to_dict l =
     JObj [(''id'', JInt (id_libro l)), (''titulo'', JStr (titulo l)),
           (''autor'', JStr (autor l)), (''stock'', JInt (stock l))]"

definition prestamo_dict :: "prestamo \<Rightarrow> json" where
  "prestamo_dict p =
     JObj [(''libro_id'', JInt (libro_id p)), (''usuario'', JStr (usuario p)),
           (''fecha_prestamo'', JStr (strftime (fecha_prestamo p))),
           (''fecha_devolucion'', JStr (strftime (fecha_devolucion p))),
           (''devuelto'', JBool (devuelto p))]"

definition datos :: "biblioteca \<Rightarrow> json" where
  "datos self =
     JObj [(''libros'', JArr (map to_dict (libros self))),
           (''prestamos'', JArr (map prestamo_dict (prestamos self)))]"

text \<open>
  \<^verbatim>\<open>Biblioteca.guardar_datos\<close>: the exception that leaves it, if any, and the file afterwards.
\<close>

definition guardar_datos :: "biblioteca \<Rightarrow> fault \<Rightarrow> disk \<Rightarrow> py_error option \<times> disk" where
  "guardar_datos self flt dsk =
     (case flt of
        NoFault \<Rightarrow> (None, Document (datos self))
      | OpenFault \<Rightarrow> (Some OSError, dsk)
      | DumpFault \<Rightarrow> (Some OSError, Malformed))"

subsection \<open>Loading\<close>

text \<open>Exceptions pass through a sequence of steps: the first one raised ends it.\<close>

definition bind_e :: "'e + 'a \<Rightarrow> ('a \<Rightarrow> 'e + 'b) \<Rightarrow> 'e + 'b" where
  "bind_e r f = (case r of Inl e \<Rightarrow> Inl e | Inr x \<Rightarrow> f x)"

fun map_e :: "('a \<Rightarrow> 'e + 'b) \<Rightarrow> 'a list \<Rightarrow> 'e + 'b list" where
  "map_e f [] = Inr []"
| "map_e f (x # xs) = bind_e (f x) (\<lambda>y. bind_e (map_e f xs) (\<lambda>ys. Inr (y # ys)))"

text \<open>
  A dict built by \<^verbatim>\<open>json.load\<close>: of two members with one name, the later one's value counts.
\<close>

definition dict_get :: "(string \<times> json) list \<Rightarrow> string \<Rightarrow> json option" where
  "dict_get kvs k = map_of (rev kvs) k"

text \<open>
  \<^verbatim>\<open>v[k]\<close> for a string \<open>k\<close>: a \<^verbatim>\<open>KeyError\<close> on a dict without the key, a \<^verbatim>\<open>TypeError\<close> on
  anything that is not a dict.
\<close>

definition subscript :: "json \<Rightarrow> string \<Rightarrow> py_error + json" where
  "subscript v k =
     (case v of
        JObj kvs \<Rightarrow> (case dict_get kvs k of None \<Rightarrow> Inl KeyError | Some x \<Rightarrow> Inr x)
      | _ \<Rightarrow> Inl TypeError)"

text \<open>\<^verbatim>\<open>v.get(k, dflt)\<close>: only a dict has the method.\<close>

definition get_default :: "json \<Rightarrow> string \<Rightarrow> json \<Rightarrow> py_error + json" where
  "get_default v k dflt =
     (case v of
        JObj kvs \<Rightarrow> Inr (case dict_get kvs k of None \<Rightarrow> dflt | Some x \<Rightarrow> x)
      | _ \<Rightarrow> Inl AttributeError)"

text \<open>
  \<^verbatim>\<open>for x in v\<close>: the elements of a list, the keys of a dict, the characters of a string;
  nothing else that JSON holds can be iterated.
\<close>

definition iterar :: "json \<Rightarrow> py_error + json list" where
  "iterar v =
     (case v of
        JArr xs \<Rightarrow> Inr xs
      | JObj kvs \<Rightarrow> Inr (map JStr (rev (remdups (rev (map fst kvs)))))
      | JStr s \<Rightarrow> Inr (map (\<lambda>c. JStr [c]) s)
      | _ \<Rightarrow> Inl TypeError)"

text \<open>
  The values the annotations of \<^verbatim>\<open>Libro\<close> and \<^verbatim>\<open>Prestamo\<close> expect. The constructors do not
  check them: a value of another type is stored as it is, and the object is then outside
  the records of this theory, which \<open>None\<close> stands for.
\<close>

definition as_int :: "json \<Rightarrow> int option" where
  "as_int v = (case v of JInt i \<Rightarrow> Some i | _ \<Rightarrow> None)"

definition as_str :: "json \<Rightarrow> string option" where
  "as_str v = (case v of JStr s \<Rightarrow> Some s | _ \<Rightarrow> None)"

definition as_bool :: "json \<Rightarrow> bool option" where
  "as_bool v = (case v of JBool b \<Rightarrow> Some b | _ \<Rightarrow> None)"

fun todos :: "'a option list \<Rightarrow> 'a list option" where
  "todos [] = Some []"
| "todos (None # xs) = None"
| "todos (Some x # xs) = map_option ((#) x) (todos xs)"

text \<open>\<^verbatim>\<open>Libro(l['id'], l['titulo'], l['autor'], l['stock'])\<close>, the subscripts from left to right.\<close>

definition Libro_de :: "json \<Rightarrow> py_error + libro option" where
  "Libro_de l =
     bind_e (subscript l ''id'') (\<lambda>i.
     bind_e (subscript l ''titulo'') (\<lambda>t.
     bind_e (subscript l ''autor'') (\<lambda>a.
     bind_e (subscript l ''stock'') (\<lambda>s.
       Inr (case (as_int i, as_str t, as_str a, as_int s) of
              (Some i', Some t', Some a', Some s') \<Rightarrow>
                Some \<lparr>id_libro = i', titulo = t', autor = a', stock = s'\<rparr>
            | _ \<Rightarrow> None)))))"

text \<open>\<^verbatim>\<open>datetime.strptime(v, '%Y-%m-%d').date()\<close>: a \<^verbatim>\<open>TypeError\<close> unless \<open>v\<close> is a string.\<close>

definition strptime_de :: "json \<Rightarrow> py_error + date" where
  "strptime_de v = (case v of JStr s \<Rightarrow> strptime s | _ \<Rightarrow> Inl TypeError)"

text \<open>
  One round of the loop over the loans: the constructor, which dates the loan \<open>hoy\<close>, then
  the three assignments that replace its dates and its flag by the file's.
\<close>

definition Prestamo_de :: "date \<Rightarrow> json \<Rightarrow> py_error + prestamo option" where
  "Prestamo_de hoy p =
     bind_e (subscript p ''libro_id'') (\<lambda>lid.
     bind_e (subscript p ''usuario'') (\<lambda>usr.
     bind_e (subscript p ''fecha_prestamo'') (\<lambda>fp.
     bind_e (strptime_de fp) (\<lambda>d1.
     bind_e (subscript p ''fecha_devolucion'') (\<lambda>fd.
     bind_e (strptime_de fd) (\<lambda>d2.
     bind_e (subscript p ''devuelto'') (\<lambda>dv.
       Inr (case (as_int lid, as_str usr, as_bool dv) of
              (Some lid', Some usr', Some dv') \<Rightarrow>
                Some ((Prestamo hoy lid' usr')
                  \<lparr>fecha_prestamo := d1, fecha_devolucion := d2, devuelto := dv'\<rparr>)
            | _ \<Rightarrow> None))))))))"

text \<open>
  How loading ends: normally, with the new state and what was printed; normally, but with a
  value of an unexpected type in some field (\<open>SinTipo\<close>); or by an exception that
  \<^verbatim>\<open>cargar_datos\<close> does not handle, which leaves \<^verbatim>\<open>Biblioteca.__init__\<close> and ends the program.
\<close>

datatype carga = Cargada biblioteca "mensaje list" | SinTipo | Fallo py_error

text \<open>
  \<^verbatim>\<open>Biblioteca.cargar_datos\<close>. The two handlers are for \<^verbatim>\<open>FileNotFoundError\<close> and
  \<^verbatim>\<open>json.JSONDecodeError\<close>; both are raised before the first assignment, so the state
  stays as it was.
\<close>

definition cargar_datos :: "biblioteca \<Rightarrow> date \<Rightarrow> disk \<Rightarrow> carga" where
  "cargar_datos self hoy dsk =
     (case dsk of
        Absent \<Rightarrow> Cargada self [SinDatosPrevios]
      | Malformed \<Rightarrow> Cargada self [ErrorLectura]
      | Document data \<Rightarrow>
          (case bind_e (get_default data ''libros'' (JArr []))
                  (\<lambda>v. bind_e (iterar v) (map_e Libro_de)) of
             Inl e \<Rightarrow> Fallo e
           | Inr ls \<Rightarrow>
               (case bind_e (get_default data ''prestamos'' (JArr []))
                       (\<lambda>v. bind_e (iterar v) (map_e (Prestamo_de hoy))) of
                  Inl e \<Rightarrow> Fallo e
                | Inr ps \<Rightarrow>
                    (case (todos ls, todos ps) of
                       (Some ls', Some ps') \<Rightarrow> Cargada \<lparr>libros = ls', prestamos = ps'\<rparr> []
                     | _ \<Rightarrow> SinTipo))))"

text \<open>\<^verbatim>\<open>Biblioteca.__init__\<close>: two empty lists, then \<^verbatim>\<open>cargar_datos\<close>.\<close>

definition Biblioteca_init :: "date \<Rightarrow> disk \<Rightarrow> carga" where
  "Biblioteca_init hoy dsk = cargar_datos \<lparr>libros = [], prestamos = []\<rparr> hoy dsk"

subsection \<open>Operations\<close>

text \<open>
  \<^verbatim>\<open>next((x for x in xs if P(x)), None)\<close> is \<^const>\<open>find\<close>. The object it returns is the
  list's own element, so an assignment to one of its fields changes the list at the first
  position where \<open>P\<close> holds; every element of the two lists is an object of its own.
\<close>

fun update_first :: "('a \<Rightarrow> bool) \<Rightarrow> ('a \<Rightarrow> 'a) \<Rightarrow> 'a list \<Rightarrow> 'a list" where
  "update_first P f [] = []"
| "update_first P f (x # xs) = (if P x then f x # xs else x # update_first P f xs)"

definition tiene_id :: "int \<Rightarrow> libro \<Rightarrow> bool" where
  "tiene_id lid l = (id_libro l = lid)"

text \<open>The condition both \<^verbatim>\<open>prestar_libro\<close> and \<^verbatim>\<open>devolver_libro\<close> search the loans with.\<close>

definition activo :: "int \<Rightarrow> string \<Rightarrow> prestamo \<Rightarrow> bool" where
  "activo lid usr p = (libro_id p = lid \<and> usuario p = usr \<and> \<not> devuelto p)"

text \<open>
  The three mutating methods of \<^verbatim>\<open>Biblioteca\<close>. Each returns what it returned or raised,
  the library as it left it and the file as it left it; \<open>flt\<close> is the fate of its call of
  \<^verbatim>\<open>guardar_datos\<close>, which comes after the lists were changed and before anything is
  printed. None of them handles an exception.
\<close>

definition agregar_libro ::
  "biblioteca \<Rightarrow> libro \<Rightarrow> fault \<Rightarrow> disk \<Rightarrow> resultado \<times> biblioteca \<times> disk" where
  "agregar_libro self lib flt dsk =
     (if list_ex (tiene_id (id_libro lib)) (libros self)
      then (Returned False [YaExisteLibro (id_libro lib)], self, dsk)
      else (let self' = self\<lparr>libros := libros self @ [lib]\<rparr>
            in case guardar_datos self' flt dsk of
                 (Some e, dsk') \<Rightarrow> (Raised e, self', dsk')
               | (None, dsk') \<Rightarrow> (Returned True [LibroAgregado (titulo lib)], self', dsk')))"

text \<open>
  \<^verbatim>\<open>any(p for p in ... if ...)\<close> is true when some loan passes the filter, a loan being a
  true value; \<^verbatim>\<open>not libro\<close> is true for \<^verbatim>\<open>None\<close> only. The notification is a task created
  on the event loop \<^verbatim>\<open>main\<close> runs in; it is recorded with what was printed.
\<close>

definition prestar_libro ::
  "biblioteca \<Rightarrow> int \<Rightarrow> string \<Rightarrow> date \<Rightarrow> fault \<Rightarrow> disk \<Rightarrow> resultado \<times> biblioteca \<times> disk" where
  "prestar_libro self lid usr hoy flt dsk =
     (if list_ex (activo lid usr) (prestamos self)
      then (Returned False [YaTienePrestado usr], self, dsk)
      else (case find (tiene_id lid) (libros self) of
              None \<Rightarrow> (Returned False [LibroNoEncontrado lid], self, dsk)
            | Some lib \<Rightarrow>
                if stock lib \<le> 0
                then (Returned False [SinExistencias (titulo lib)], self, dsk)
                else (let p = Prestamo hoy lid usr;
                          self' = self
                            \<lparr>libros := update_first (tiene_id lid)
                                         (\<lambda>l. l\<lparr>stock := stock l - 1\<rparr>) (libros self),
                             prestamos := prestamos self @ [p]\<rparr>
                      in case guardar_datos self' flt dsk of
                           (Some e, dsk') \<Rightarrow> (Raised e, self', dsk')
                         | (None, dsk') \<Rightarrow>
                             (Returned True
                                [LibroPrestado (titulo lib) usr (fecha_devolucion p),
                                 Notificacion usr (titulo lib) (fecha_devolucion p)],
                              self', dsk'))))"

text \<open>
  The loan and the book are the first ones found. The fine is computed, for the message
  only, from the loan as it is after the assignment to \<^verbatim>\<open>devuelto\<close>.
\<close>

definition devolver_libro ::
  "biblioteca \<Rightarrow> int \<Rightarrow> string \<Rightarrow> date \<Rightarrow> fault \<Rightarrow> disk \<Rightarrow> resultado \<times> biblioteca \<times> disk" where
  "devolver_libro self lid usr hoy flt dsk =
     (case find (activo lid usr) (prestamos self) of
        None \<Rightarrow> (Returned False [PrestamoNoEncontrado usr], self, dsk)
      | Some p \<Rightarrow>
          (case find (tiene_id lid) (libros self) of
             None \<Rightarrow> (Returned False [LibroNoEncontrado lid], self, dsk)
           | Some lib \<Rightarrow>
               (let p' = p\<lparr>devuelto := True\<rparr>;
                    self' = self
                      \<lparr>libros := update_first (tiene_id lid)
                                   (\<lambda>l. l\<lparr>stock := stock l + 1\<rparr>) (libros self),
                       prestamos := update_first (activo lid usr)
                                      (\<lambda>q. q\<lparr>devuelto := True\<rparr>) (prestamos self)\<rparr>
                in case guardar_datos self' flt dsk of
                     (Some e, dsk') \<Rightarrow> (Raised e, self', dsk')
                   | (None, dsk') \<Rightarrow>
                       (let multa = calcular_multa p' hoy
                        in if multa > 0
                           then (Returned True [DevolucionTardia multa], self', dsk')
                           else (Returned True [LibroDevuelto (titulo lib)], self', dsk')))))"

subsection \<open>The menu's dispatch and runs of the program\<close>

text \<open>
  The three mutating choices of \<^verbatim>\<open>main\<close> (1, 4 and 5), with their parsed arguments.
\<close>

datatype operacion = AgregarLibro libro | PrestarLibro int string | DevolverLibro int string

fun ejecutar ::
  "biblioteca \<Rightarrow> operacion \<Rightarrow> date \<Rightarrow> fault \<Rightarrow> disk \<Rightarrow> resultado \<times> biblioteca \<times> disk" where
  "ejecutar self (AgregarLibro lib) hoy flt dsk = agregar_libro self lib flt dsk"
| "ejecutar self (PrestarLibro lid usr) hoy flt dsk = prestar_libro self lid usr hoy flt dsk"
| "ejecutar self (DevolverLibro lid usr) hoy flt dsk = devolver_libro self lid usr hoy flt dsk"

text \<open>
  A run of the menu loop: each choice comes with the date of the clock and with the fate of
  its write, and the next choice starts from the state and the file the previous one left.
  (An exception ends \<^verbatim>\<open>main\<close>; a run here goes on from the state the exception left, which
  covers a caller that handles it.)
\<close>

fun correr ::
  "biblioteca \<times> disk \<Rightarrow> (operacion \<times> date \<times> fault) list \<Rightarrow> biblioteca \<times> disk" where
  "correr st [] = st"
| "correr st ((op, hoy, flt) # rest) =
     correr (snd (ejecutar (fst st) op hoy flt (snd st))) rest"

definition exito :: "resultado \<Rightarrow> bool" where
  "exito r = (case r of Returned b ms \<Rightarrow> b | Raised e \<Rightarrow> False)"

definition mensajes :: "resultado \<Rightarrow> mensaje list" where
  "mensajes r = (case r of Returned b ms \<Rightarrow> ms | Raised e \<Rightarrow> [])"

definition es_tardia :: "mensaje \<Rightarrow> bool" where
  "es_tardia m = (case m of DevolucionTardia x \<Rightarrow> True | _ \<Rightarrow> False)"

subsection \<open>Predicates of the specification\<close>

text \<open>
  The three reasons for which the specification lets a loan fail: the borrower holds an
  unreturned loan of the book, no book has the id, or the book (the first one with the id)
  has no stock.
\<close>

definition rechazado :: "biblioteca \<Rightarrow> int \<Rightarrow> string \<Rightarrow> bool" where
  "rechazado self lid usr =
     (list_ex (activo lid usr) (prestamos self)
      \<or> (case find (tiene_id lid) (libros self) of None \<Rightarrow> True | Some lib \<Rightarrow> stock lib \<le> 0))"

text \<open>
  The return as the specification words it: the last loan, in insertion order, that matches
  and is unreturned gets marked. It is compared with what \<^const>\<open>devolver_libro\<close> does.
\<close>

definition devolver_mas_reciente :: "int \<Rightarrow> string \<Rightarrow> prestamo list \<Rightarrow> prestamo list" where
  "devolver_mas_reciente lid usr ps =
     rev (update_first (activo lid usr) (\<lambda>q. q\<lparr>devuelto := True\<rparr>) (rev ps))"

text \<open>
  An operation is atomic when it either succeeds, with the state changed and the file
  holding the new state, or leaves both the state and the file as they were.
\<close>

definition atomica :: "biblioteca \<Rightarrow> disk \<Rightarrow> resultado \<times> biblioteca \<times> disk \<Rightarrow> bool" where
  "atomica self dsk out =
     (case out of (r, self', dsk') \<Rightarrow>
        if exito r then self' \<noteq> self \<and> dsk' = Document (datos self')
        else self' = self \<and> dsk' = dsk)"

text \<open>
  What an operation did, given what it does when the write goes through: atomic without a
  fault and whenever it returns; an exception only under a fault, with the state changed as
  in the run without fault and the file untouched or left incomplete; and an exception
  whenever the write fails where the run without fault succeeds.
\<close>

definition efecto ::
  "biblioteca \<Rightarrow> disk \<Rightarrow> fault \<Rightarrow> resultado \<times> biblioteca \<times> disk \<Rightarrow> resultado \<times> biblioteca \<times> disk \<Rightarrow> bool" where
  "efecto self dsk flt out ok =
     ((flt = NoFault \<longrightarrow> atomica self dsk out)
      \<and> (\<forall>b ms. fst out = Returned b ms \<longrightarrow> atomica self dsk out)
      \<and> (\<forall>e. fst out = Raised e \<longrightarrow>
            flt \<noteq> NoFault \<and> e = OSError \<and> fst (snd out) \<noteq> self
            \<and> fst (snd out) = fst (snd ok)
            \<and> snd (snd out) = (if flt = OpenFault then dsk else Malformed))
      \<and> (flt \<noteq> NoFault \<and> exito (fst ok) \<longrightarrow> fst out = Raised OSError))"

text \<open>
  At most one unreturned loan for each pair of book id and borrower: the pairs of the
  unreturned loans are pairwise distinct.
\<close>

definition clave :: "prestamo \<Rightarrow> int \<times> string" where
  "clave p = (libro_id p, usuario p)"

definition pendiente :: "prestamo \<Rightarrow> bool" where
  "pendiente p = (\<not> devuelto p)"

definition sin_duplicados :: "biblioteca \<Rightarrow> bool" where
  "sin_duplicados self = distinct (map clave (filter pendiente (prestamos self)))"

text \<open>
  The number of unreturned loans of a book, and the stock of the book with a given id (the
  first such book, the one \<^verbatim>\<open>prestar_libro\<close> and \<^verbatim>\<open>devolver_libro\<close> find).
\<close>

definition prestados :: "biblioteca \<Rightarrow> int \<Rightarrow> int" where
  "prestados self lid =
     int (length (filter (\<lambda>p. libro_id p = lid \<and> \<not> devuelto p) (prestamos self)))"

definition existencias :: "biblioteca \<Rightarrow> int \<Rightarrow> int option" where
  "existencias self lid = map_option stock (find (tiene_id lid) (libros self))"

text \<open>
  The two dates of a loan are dates of Python (between \<^verbatim>\<open>date.min\<close> and \<^verbatim>\<open>date.max\<close>), and
  dates of a year of four digits (from 1000-01-01 to \<^verbatim>\<open>date.max\<close>).
\<close>

definition fechas_de_python :: "prestamo \<Rightarrow> bool" where
  "fechas_de_python p =
     (date_min \<le> fecha_prestamo p \<and> fecha_prestamo p \<le> date_max
      \<and> date_min \<le> fecha_devolucion p \<and> fecha_devolucion p \<le> date_max)"

definition fechas_desde_1000 :: "prestamo \<Rightarrow> bool" where
  "fechas_desde_1000 p =
     (fecha_1000 \<le> fecha_prestamo p \<and> fecha_prestamo p \<le> date_max
      \<and> fecha_1000 \<le> fecha_devolucion p \<and> fecha_devolucion p \<le> date_max)"

subsection \<open>States used as examples\<close>

definition libro_x :: libro where
  "libro_x = \<lparr>id_libro = 1, titulo = ''X'', autor = ''Y'', stock = 2\<rparr>"

definition vacia :: biblioteca where
  "vacia = \<lparr>libros = [], prestamos = []\<rparr>"

definition con_prestamo :: biblioteca where
  "con_prestamo =
     \<lparr>libros = [\<lparr>id_libro = 1, titulo = ''X'', autor = ''Y'', stock = 1\<rparr>],
      prestamos = [Prestamo 738000 1 ''alice'']\<rparr>"

definition con_libro :: biblioteca where
  "con_libro = \<lparr>libros = [libro_x], prestamos = []\<rparr>"

text \<open>A loan of 0999-12-17, due on 0999-12-31, as a data file can hold it.\<close>

definition con_prestamo_antiguo :: biblioteca where
  "con_prestamo_antiguo =
     \<lparr>libros = [\<lparr>id_libro = 1, titulo = ''X'', autor = ''Y'', stock = 1\<rparr>],
      prestamos = [Prestamo 364863 1 ''alice'']\<rparr>"

definition dos_prestamos :: biblioteca where
  "dos_prestamos =
     \<lparr>libros = [\<lparr>id_libro = 1, titulo = ''X'', autor = ''Y'', stock = 0\<rparr>],
      prestamos = [Prestamo 738000 1 ''alice'', Prestamo 738005 1 ''alice'']\<rparr>"

definition escenario :: "(operacion \<times> date \<times> fault) list" where
  "escenario =
     [(AgregarLibro libro_x, 738000, NoFault),
      (PrestarLibro 1 ''alice'', 738000, NoFault),
      (PrestarLibro 1 ''alice'', 738001, NoFault),
      (PrestarLibro 1 ''bob'', 738002, NoFault),
      (DevolverLibro 1 ''alice'', 738003, NoFault)]"

section \<open>Fines\<close>

lemma calcular_multa_nonneg: "0 \<le> calcular_multa p hoy"
  by (simp add: calcular_multa_def Let_def)

text \<open>
  Claim C4. The fine of a loan at the date \<open>hoy\<close> is 0 when the loan is returned or
  \<open>hoy\<close> is not after the due date, and otherwise half a unit per day between the due date
  and \<open>hoy\<close>; it is 10 for an unreturned loan due 20 days before \<open>hoy\<close>, and never negative.
\<close>

theorem calcular_multa_policy:
  "calcular_multa p hoy =
     (if devuelto p \<or> hoy \<le> fecha_devolucion p then 0
      else of_int (hoy - fecha_devolucion p) * (1 / 2))
   \<and> (\<not> devuelto p \<and> fecha_devolucion p = hoy - 20 \<longrightarrow> calcular_multa p hoy = 10)
   \<and> 0 \<le> calcular_multa p hoy"
  by (simp add: calcular_multa_def Let_def max_def)

theorem calcular_multa_policy_witness:
  "calcular_multa (Prestamo 738000 1 ''ana'') 738034 = 10
   \<and> calcular_multa (Prestamo 738000 1 ''ana'') 738014 = 0
   \<and> calcular_multa ((Prestamo 738000 1 ''ana'')\<lparr>devuelto := True\<rparr>) 738034 = 0"
  using calcular_multa_policy [of "Prestamo 738000 1 ''ana''" 738034]
    calcular_multa_policy [of "Prestamo 738000 1 ''ana''" 738014]
    calcular_multa_policy [of "(Prestamo 738000 1 ''ana'')\<lparr>devuelto := True\<rparr>" 738034]
  by (simp add: Prestamo_def Prestamo_init_def)

lemma multa_devuelto: "calcular_multa (p\<lparr>devuelto := True\<rparr>) hoy = 0"
  by (simp add: calcular_multa_def)

text \<open>
  Claim C10. \<^verbatim>\<open>devolver_libro\<close> computes the fine of the loan after it has set the
  loan's \<open>devuelto\<close> to true, so the fine it computes is 0 and no call, in any state, prints
  the late-return message.
\<close>

theorem devolver_libro_sin_multa:
  "calcular_multa (p\<lparr>devuelto := True\<rparr>) hoy = 0
   \<and> \<not> list_ex es_tardia (mensajes (fst (devolver_libro self lid usr hoy flt dsk)))"
  by (cases flt)
     (simp_all add: devolver_libro_def guardar_datos_def multa_devuelto mensajes_def es_tardia_def
        Let_def split: option.splits)

theorem devolver_libro_sin_multa_witness:
  "fst (devolver_libro con_prestamo 1 ''alice'' 738034 NoFault Absent) =
     Returned True [LibroDevuelto ''X'']
   \<and> calcular_multa (Prestamo 738000 1 ''alice'') 738034 = 10
   \<and> calcular_multa ((Prestamo 738000 1 ''alice'')\<lparr>devuelto := True\<rparr>) 738034 = 0"
  using devolver_libro_sin_multa
    [of "Prestamo 738000 1 ''alice''" 738034 con_prestamo 1 "''alice''" NoFault Absent]
  by (simp add: devolver_libro_def guardar_datos_def con_prestamo_def Prestamo_def
      Prestamo_init_def activo_def tiene_id_def calcular_multa_def Let_def)

section \<open>Adding a book\<close>

text \<open>
  Claim C8. When a book with the new book's id is in the catalog, \<^verbatim>\<open>agregar_libro\<close>
  returns False, without an exception, and changes neither the catalog nor the file; so a
  second call with the same id, right after a first one, fails and leaves the catalog as the
  first call left it. When no book has that id and the write goes through, it returns True,
  the book is the catalog's new last element and the file holds the new state; and whenever
  it returns True the book was appended and the file holds the new state.
\<close>

theorem agregar_libro_duplicado:
  "(list_ex (tiene_id (id_libro lib)) (libros self) \<longrightarrow>
      agregar_libro self lib flt dsk = (Returned False [YaExisteLibro (id_libro lib)], self, dsk))
   \<and> (\<not> list_ex (tiene_id (id_libro lib)) (libros self) \<longrightarrow>
      agregar_libro self lib NoFault dsk =
        (Returned True [LibroAgregado (titulo lib)], self\<lparr>libros := libros self @ [lib]\<rparr>,
         Document (datos (self\<lparr>libros := libros self @ [lib]\<rparr>))))
   \<and> (exito (fst (agregar_libro self lib flt dsk)) \<longrightarrow>
      libros (fst (snd (agregar_libro self lib flt dsk))) = libros self @ [lib]
      \<and> snd (snd (agregar_libro self lib flt dsk)) =
          Document (datos (fst (snd (agregar_libro self lib flt dsk)))))
   \<and> (id_libro lib' = id_libro lib \<longrightarrow>
      (case agregar_libro self lib flt dsk of
         (r, self1, dsk1) \<Rightarrow>
           agregar_libro self1 lib' flt' dsk1 =
             (Returned False [YaExisteLibro (id_libro lib)], self1, dsk1)))"
  by (cases flt)
     (auto simp add: agregar_libro_def guardar_datos_def exito_def tiene_id_def Let_def list_ex_iff)

theorem agregar_libro_duplicado_witness:
  "agregar_libro vacia libro_x NoFault Absent =
     (Returned True [LibroAgregado ''X''], \<lparr>libros = [libro_x], prestamos = []\<rparr>,
      Document (datos \<lparr>libros = [libro_x], prestamos = []\<rparr>))
   \<and> agregar_libro \<lparr>libros = [libro_x], prestamos = []\<rparr> (libro_x\<lparr>titulo := ''Z''\<rparr>) NoFault
        (Document (datos \<lparr>libros = [libro_x], prestamos = []\<rparr>)) =
     (Returned False [YaExisteLibro 1], \<lparr>libros = [libro_x], prestamos = []\<rparr>,
      Document (datos \<lparr>libros = [libro_x], prestamos = []\<rparr>))"
  using agregar_libro_duplicado
    [of libro_x vacia NoFault Absent "libro_x\<lparr>titulo := ''Z''\<rparr>" NoFault]
  by (simp add: vacia_def libro_x_def tiene_id_def exito_def agregar_libro_def guardar_datos_def)

section \<open>Lending a book\<close>

lemma find_update_first_same:
  "find P xs = Some x \<Longrightarrow> P (f x) \<Longrightarrow> find P (update_first P f xs) = Some (f x)"
  by (induction xs) (auto split: if_splits)

lemma find_update_first_other:
  "\<forall>x. Q (f x) = Q x \<Longrightarrow> \<forall>x. P x \<longrightarrow> \<not> Q x \<Longrightarrow> find Q (update_first P f xs) = find Q xs"
  by (induction xs) auto

lemma find_split_update_first:
  "find P xs = Some x \<Longrightarrow>
   \<exists>pre post. xs = pre @ x # post \<and> \<not> list_ex P pre \<and> update_first P f xs = pre @ f x # post"
proof (induction xs)
  case Nil
  then show ?case by simp
next
  case (Cons a xs)
  show ?case
  proof (cases "P a")
    case True
    with Cons.prems have "a = x" by simp
    with True have "a # xs = [] @ x # xs \<and> \<not> list_ex P [] \<and> update_first P f (a # xs) = [] @ f x # xs"
      by simp
    then show ?thesis by blast
  next
    case False
    with Cons.prems have "find P xs = Some x" by simp
    from Cons.IH [OF this] obtain pre post where
      h: "xs = pre @ x # post" "\<not> list_ex P pre" "update_first P f xs = pre @ f x # post"
      by blast
    with False have "a # xs = (a # pre) @ x # post \<and> \<not> list_ex P (a # pre)
        \<and> update_first P f (a # xs) = (a # pre) @ f x # post"
      by simp
    then show ?thesis by blast
  qed
qed

text \<open>
  Claim C1. \<^verbatim>\<open>prestar_libro\<close> returns False, with the state and the file untouched,
  exactly when the borrower holds an unreturned loan of the book, or no book has the id, or
  the book has no stock. Otherwise, the write going through, it returns True, the book's
  stock is one less and no other book changed, the new last loan is dated \<open>hoy\<close>, is due
  14 days later and is not returned, and the file holds the new state.
\<close>

theorem prestar_libro_contrato:
  "(rechazado self lid usr \<longrightarrow>
      exito (fst (prestar_libro self lid usr hoy flt dsk)) = False
      \<and> (\<exists>ms. fst (prestar_libro self lid usr hoy flt dsk) = Returned False ms)
      \<and> snd (prestar_libro self lid usr hoy flt dsk) = (self, dsk))
   \<and> (fst (prestar_libro self lid usr hoy flt dsk) = Returned False ms' \<longrightarrow> rechazado self lid usr)
   \<and> (\<not> rechazado self lid usr \<longrightarrow>
      (\<exists>lib self'.
         find (tiene_id lid) (libros self) = Some lib
         \<and> prestar_libro self lid usr hoy NoFault dsk =
             (Returned True [LibroPrestado (titulo lib) usr (hoy + 14),
                             Notificacion usr (titulo lib) (hoy + 14)],
              self', Document (datos self'))
         \<and> prestamos self' = prestamos self @
             [\<lparr>libro_id = lid, usuario = usr, fecha_prestamo = hoy,
               fecha_devolucion = hoy + 14, devuelto = False\<rparr>]
         \<and> libros self' =
             update_first (tiene_id lid) (\<lambda>l. l\<lparr>stock := stock l - 1\<rparr>) (libros self)
         \<and> find (tiene_id lid) (libros self') = Some (lib\<lparr>stock := stock lib - 1\<rparr>)
         \<and> (\<forall>j. j \<noteq> lid \<longrightarrow> find (tiene_id j) (libros self') = find (tiene_id j) (libros self))))"
proof (intro conjI impI)
  assume r: "rechazado self lid usr"
  then show "exito (fst (prestar_libro self lid usr hoy flt dsk)) = False"
    by (auto simp: rechazado_def prestar_libro_def exito_def split: option.splits)
  from r show "\<exists>ms. fst (prestar_libro self lid usr hoy flt dsk) = Returned False ms"
    by (auto simp: rechazado_def prestar_libro_def split: option.splits)
  from r show "snd (prestar_libro self lid usr hoy flt dsk) = (self, dsk)"
    by (auto simp: rechazado_def prestar_libro_def split: option.splits)
next
  assume "fst (prestar_libro self lid usr hoy flt dsk) = Returned False ms'"
  then show "rechazado self lid usr"
    by (cases flt)
       (auto simp: rechazado_def prestar_libro_def guardar_datos_def Let_def
          split: option.splits if_splits)
next
  assume n: "\<not> rechazado self lid usr"
  then obtain lib where lib: "find (tiene_id lid) (libros self) = Some lib" "\<not> stock lib \<le> 0"
    and na: "\<not> list_ex (activo lid usr) (prestamos self)"
    by (auto simp: rechazado_def split: option.splits)
  define self' where "self' = self
     \<lparr>libros := update_first (tiene_id lid) (\<lambda>l. l\<lparr>stock := stock l - 1\<rparr>) (libros self),
      prestamos := prestamos self @ [Prestamo hoy lid usr]\<rparr>"
  have run: "prestar_libro self lid usr hoy NoFault dsk =
      (Returned True [LibroPrestado (titulo lib) usr (hoy + 14),
                      Notificacion usr (titulo lib) (hoy + 14)],
       self', Document (datos self'))"
    using lib na
    by (simp add: prestar_libro_def guardar_datos_def Let_def self'_def Prestamo_def Prestamo_init_def)
  have tl: "tiene_id lid lib"
    using lib(1) by (auto simp: find_Some_iff)
  have same: "find (tiene_id lid) (libros self') = Some (lib\<lparr>stock := stock lib - 1\<rparr>)"
    using find_update_first_same [OF lib(1), of "\<lambda>l. l\<lparr>stock := stock l - 1\<rparr>"] tl
    by (simp add: self'_def tiene_id_def)
  have other: "\<forall>j. j \<noteq> lid \<longrightarrow> find (tiene_id j) (libros self') = find (tiene_id j) (libros self)"
  proof (intro allI impI)
    fix j :: int assume "j \<noteq> lid"
    then show "find (tiene_id j) (libros self') = find (tiene_id j) (libros self)"
      by (simp add: self'_def tiene_id_def find_update_first_other)
  qed
  show "\<exists>lib self'.
         find (tiene_id lid) (libros self) = Some lib
         \<and> prestar_libro self lid usr hoy NoFault dsk =
             (Returned True [LibroPrestado (titulo lib) usr (hoy + 14),
                             Notificacion usr (titulo lib) (hoy + 14)],
              self', Document (datos self'))
         \<and> prestamos self' = prestamos self @
             [\<lparr>libro_id = lid, usuario = usr, fecha_prestamo = hoy,
               fecha_devolucion = hoy + 14, devuelto = False\<rparr>]
         \<and> libros self' =
             update_first (tiene_id lid) (\<lambda>l. l\<lparr>stock := stock l - 1\<rparr>) (libros self)
         \<and> find (tiene_id lid) (libros self') = Some (lib\<lparr>stock := stock lib - 1\<rparr>)
         \<and> (\<forall>j. j \<noteq> lid \<longrightarrow> find (tiene_id j) (libros self') = find (tiene_id j) (libros self))"
    using lib(1) run same other
    by (intro exI [of _ lib] exI [of _ self'])
       (simp add: self'_def Prestamo_def Prestamo_init_def)
qed

theorem prestar_libro_contrato_witness:
  "prestar_libro con_libro 1 ''alice'' 738000 NoFault Absent =
     (Returned True [LibroPrestado ''X'' ''alice'' 738014, Notificacion ''alice'' ''X'' 738014],
      \<lparr>libros = [libro_x\<lparr>stock := 1\<rparr>], prestamos = [Prestamo 738000 1 ''alice'']\<rparr>,
      Document (datos \<lparr>libros = [libro_x\<lparr>stock := 1\<rparr>],
                       prestamos = [Prestamo 738000 1 ''alice'']\<rparr>))
   \<and> prestar_libro con_libro 99 ''bob'' 738000 NoFault Absent =
     (Returned False [LibroNoEncontrado 99], con_libro, Absent)
   \<and> rechazado con_libro 99 ''bob'' \<and> \<not> rechazado con_libro 1 ''alice''"
  using prestar_libro_contrato [of con_libro 1 "''alice''" 738000 NoFault Absent "[]"]
    prestar_libro_contrato [of con_libro 99 "''bob''" 738000 NoFault Absent "[]"]
  by (simp add: con_libro_def libro_x_def rechazado_def prestar_libro_def guardar_datos_def
      tiene_id_def activo_def Prestamo_def Prestamo_init_def Let_def)

section \<open>Returning a book\<close>

text \<open>
  With two unreturned loans of book 1 by alice, \<^verbatim>\<open>devolver_libro\<close> marks the older one;
  the specification's wording marks the newer one.
\<close>

theorem devolver_libro_mas_reciente_counterexample:
  "prestamos (fst (snd (devolver_libro dos_prestamos 1 ''alice'' 738010 NoFault Absent)))
     = [(Prestamo 738000 1 ''alice'')\<lparr>devuelto := True\<rparr>, Prestamo 738005 1 ''alice'']
   \<and> devolver_mas_reciente 1 ''alice'' (prestamos dos_prestamos)
     = [Prestamo 738000 1 ''alice'', (Prestamo 738005 1 ''alice'')\<lparr>devuelto := True\<rparr>]
   \<and> prestamos (fst (snd (devolver_libro dos_prestamos 1 ''alice'' 738010 NoFault Absent)))
     \<noteq> devolver_mas_reciente 1 ''alice'' (prestamos dos_prestamos)"
  by (simp add: devolver_libro_def devolver_mas_reciente_def dos_prestamos_def guardar_datos_def
      tiene_id_def activo_def Prestamo_def Prestamo_init_def calcular_multa_def Let_def)

text \<open>
  Claim C2, amended. When an unreturned loan of the book by the borrower exists and the
  book is in the catalog, \<^verbatim>\<open>devolver_libro\<close> marks as returned the first such loan in
  insertion order: no loan before it matches, and every other loan stays as it was.
\<close>

theorem devolver_libro_primer_prestamo:
  assumes "find (activo lid usr) (prestamos self) = Some p"
    and "find (tiene_id lid) (libros self) = Some lib"
  shows "\<exists>pre post. prestamos self = pre @ p # post
           \<and> \<not> list_ex (activo lid usr) pre
           \<and> prestamos (fst (snd (devolver_libro self lid usr hoy flt dsk)))
               = pre @ p\<lparr>devuelto := True\<rparr> # post"
proof -
  have "prestamos (fst (snd (devolver_libro self lid usr hoy flt dsk)))
      = update_first (activo lid usr) (\<lambda>q. q\<lparr>devuelto := True\<rparr>) (prestamos self)"
    using assms
    by (cases flt) (simp_all add: devolver_libro_def guardar_datos_def Let_def multa_devuelto)
  with find_split_update_first [OF assms(1), of "\<lambda>q. q\<lparr>devuelto := True\<rparr>"]
  show ?thesis by auto
qed

theorem devolver_libro_primer_prestamo_witness:
  "\<exists>pre post. prestamos dos_prestamos = pre @ Prestamo 738000 1 ''alice'' # post
      \<and> \<not> list_ex (activo 1 ''alice'') pre
      \<and> prestamos (fst (snd (devolver_libro dos_prestamos 1 ''alice'' 738010 NoFault Absent)))
          = pre @ (Prestamo 738000 1 ''alice'')\<lparr>devuelto := True\<rparr> # post"
proof -
  have a: "find (activo 1 ''alice'') (prestamos dos_prestamos) = Some (Prestamo 738000 1 ''alice'')"
    by (simp add: dos_prestamos_def activo_def Prestamo_def Prestamo_init_def)
  have b: "find (tiene_id 1) (libros dos_prestamos)
      = Some \<lparr>id_libro = 1, titulo = ''X'', autor = ''Y'', stock = 0\<rparr>"
    by (simp add: dos_prestamos_def tiene_id_def)
  show ?thesis
    using devolver_libro_primer_prestamo [OF a b] .
qed

section \<open>Atomicity\<close>

text \<open>
  Adding a book while the file cannot be opened for writing: the exception leaves
  \<^verbatim>\<open>agregar_libro\<close> with the book in the catalog and nothing written.
\<close>

theorem atomica_counterexample:
  "\<not> atomica vacia Absent (agregar_libro vacia libro_x OpenFault Absent)
   \<and> agregar_libro vacia libro_x OpenFault Absent =
       (Raised OSError, \<lparr>libros = [libro_x], prestamos = []\<rparr>, Absent)"
  by (simp add: atomica_def agregar_libro_def guardar_datos_def vacia_def exito_def tiene_id_def)

lemma update_first_neq:
  "find P xs = Some x \<Longrightarrow> f x \<noteq> x \<Longrightarrow> update_first P f xs \<noteq> xs"
  by (induction xs) (auto split: if_splits)

lemma prestamos_neq: "prestamos s' \<noteq> prestamos s \<Longrightarrow> s' \<noteq> s"
  by auto

lemma libros_neq: "libros s' \<noteq> libros s \<Longrightarrow> s' \<noteq> s"
  by auto

lemma agregar_cambia: "self\<lparr>libros := libros self @ [lib]\<rparr> \<noteq> self"
  by (rule libros_neq) simp

lemma prestar_cambia: "self\<lparr>libros := ls, prestamos := prestamos self @ [p]\<rparr> \<noteq> self"
  by (rule prestamos_neq) simp

lemma devolver_cambia:
  assumes "find (activo lid usr) (prestamos self) = Some p"
  shows "self\<lparr>libros := ls, prestamos :=
           update_first (activo lid usr) (\<lambda>q. q\<lparr>devuelto := True\<rparr>) (prestamos self)\<rparr> \<noteq> self"
proof (rule prestamos_neq)
  from assms have "activo lid usr p" by (auto simp: find_Some_iff)
  then have "p\<lparr>devuelto := True\<rparr> \<noteq> p"
    by (auto simp: activo_def dest: arg_cong [where f = devuelto])
  with assms have "update_first (activo lid usr) (\<lambda>q. q\<lparr>devuelto := True\<rparr>) (prestamos self)
      \<noteq> prestamos self"
    by (rule update_first_neq)
  then show "prestamos (self\<lparr>libros := ls, prestamos :=
           update_first (activo lid usr) (\<lambda>q. q\<lparr>devuelto := True\<rparr>) (prestamos self)\<rparr>)
      \<noteq> prestamos self"
    by simp
qed

lemma agregar_efecto:
  "efecto self dsk flt (agregar_libro self lib flt dsk) (agregar_libro self lib NoFault dsk)"
  by (cases flt)
     (simp_all add: efecto_def atomica_def exito_def agregar_libro_def guardar_datos_def Let_def
        agregar_cambia)

lemma prestar_efecto:
  "efecto self dsk flt (prestar_libro self lid usr hoy flt dsk)
     (prestar_libro self lid usr hoy NoFault dsk)"
  by (cases flt)
     (simp_all add: efecto_def atomica_def exito_def prestar_libro_def guardar_datos_def Let_def
        prestar_cambia split: option.splits)

lemma devolver_efecto:
  "efecto self dsk flt (devolver_libro self lid usr hoy flt dsk)
     (devolver_libro self lid usr hoy NoFault dsk)"
  by (cases flt)
     (simp_all add: efecto_def atomica_def exito_def devolver_libro_def guardar_datos_def Let_def
        multa_devuelto devolver_cambia split: option.splits)

text \<open>
  Claim C3, amended. Every mutating operation is atomic when the write does not fail, and
  whenever it returns: it then either returned True with the state changed and the file
  holding the new state, or returned False with state and file untouched. When the write
  fails, an \<^verbatim>\<open>OSError\<close> leaves the operation, the state is changed as if the write had gone
  through, and the file is as before (the open failed) or incomplete; and the write failing
  where the operation would have succeeded, the \<^verbatim>\<open>OSError\<close> does leave it.
\<close>

theorem ejecutar_atomica_sin_fallo:
  "(flt = NoFault \<longrightarrow> atomica self dsk (ejecutar self op hoy flt dsk))
   \<and> (fst (ejecutar self op hoy flt dsk) = Returned b ms \<longrightarrow>
        atomica self dsk (ejecutar self op hoy flt dsk))
   \<and> (fst (ejecutar self op hoy flt dsk) = Raised e \<longrightarrow>
        flt \<noteq> NoFault \<and> e = OSError \<and> fst (snd (ejecutar self op hoy flt dsk)) \<noteq> self
        \<and> fst (snd (ejecutar self op hoy flt dsk)) = fst (snd (ejecutar self op hoy NoFault dsk))
        \<and> snd (snd (ejecutar self op hoy flt dsk)) = (if flt = OpenFault then dsk else Malformed))
   \<and> (flt \<noteq> NoFault \<and> exito (fst (ejecutar self op hoy NoFault dsk)) \<longrightarrow>
        fst (ejecutar self op hoy flt dsk) = Raised OSError)"
proof (cases op)
  case (AgregarLibro lib)
  show ?thesis
    using agregar_efecto [of self dsk flt lib]
    unfolding AgregarLibro efecto_def ejecutar.simps by blast
next
  case (PrestarLibro lid usr)
  show ?thesis
    using prestar_efecto [of self dsk flt lid usr hoy]
    unfolding PrestarLibro efecto_def ejecutar.simps by blast
next
  case (DevolverLibro lid usr)
  show ?thesis
    using devolver_efecto [of self dsk flt lid usr hoy]
    unfolding DevolverLibro efecto_def ejecutar.simps by blast
qed

theorem ejecutar_atomica_sin_fallo_witness:
  "atomica vacia Absent (ejecutar vacia (AgregarLibro libro_x) 738000 NoFault Absent)
   \<and> ejecutar vacia (AgregarLibro libro_x) 738000 NoFault Absent =
       (Returned True [LibroAgregado ''X''], \<lparr>libros = [libro_x], prestamos = []\<rparr>,
        Document (datos \<lparr>libros = [libro_x], prestamos = []\<rparr>))
   \<and> ejecutar vacia (AgregarLibro libro_x) 738000 DumpFault Absent =
       (Raised OSError, \<lparr>libros = [libro_x], prestamos = []\<rparr>, Malformed)"
  using ejecutar_atomica_sin_fallo [of NoFault vacia Absent "AgregarLibro libro_x" 738000 True "[LibroAgregado ''X'']" OSError]
    ejecutar_atomica_sin_fallo [of DumpFault vacia Absent "AgregarLibro libro_x" 738000 True "[]" OSError]
  by (simp add: agregar_libro_def guardar_datos_def vacia_def tiene_id_def Let_def libro_x_def
      atomica_def exito_def)

section \<open>One unreturned loan for each book and borrower\<close>

lemma filter_update_first_subset:
  "\<forall>x. \<not> Q (f x) \<Longrightarrow> set (filter Q (update_first P f xs)) \<subseteq> set (filter Q xs)"
  by (induction xs) auto

lemma distinct_update_first:
  "\<forall>x. \<not> Q (f x) \<Longrightarrow> distinct (map k (filter Q xs)) \<Longrightarrow>
   distinct (map k (filter Q (update_first P f xs)))"
proof (induction xs)
  case Nil
  then show ?case by simp
next
  case (Cons a xs)
  have sub: "set (filter Q (update_first P f xs)) \<subseteq> set (filter Q xs)"
    using Cons.prems(1) by (rule filter_update_first_subset)
  show ?case
  proof (cases "P a")
    case True
    with Cons.prems show ?thesis by (auto split: if_splits)
  next
    case False
    with Cons sub show ?thesis by (auto split: if_splits)
  qed
qed

lemma sin_duplicados_count:
  "distinct (map clave (filter pendiente ps)) \<Longrightarrow> length (filter (activo lid usr) ps) \<le> 1"
proof (induction ps)
  case Nil
  then show ?case by simp
next
  case (Cons p ps)
  show ?case
  proof (cases "activo lid usr p")
    case True
    then have "pendiente p" "clave p = (lid, usr)"
      by (auto simp: activo_def pendiente_def clave_def)
    with Cons.prems have "(lid, usr) \<notin> clave ` set (filter pendiente ps)"
      by auto
    then have "filter (activo lid usr) ps = []"
      by (auto simp: filter_empty_conv activo_def pendiente_def clave_def image_iff)
    with True show ?thesis by simp
  next
    case False
    with Cons show ?thesis by (simp split: if_splits)
  qed
qed

lemma agregar_prestamos:
  "prestamos (fst (snd (agregar_libro self lib flt dsk))) = prestamos self"
  by (cases flt) (simp_all add: agregar_libro_def guardar_datos_def Let_def)

lemma prestar_prestamos:
  "prestamos (fst (snd (prestar_libro self lid usr hoy flt dsk))) =
     (if rechazado self lid usr then prestamos self
      else prestamos self @ [Prestamo hoy lid usr])"
  by (cases flt)
     (simp_all add: prestar_libro_def rechazado_def guardar_datos_def Let_def split: option.splits)

lemma devolver_prestamos:
  "prestamos (fst (snd (devolver_libro self lid usr hoy flt dsk))) =
     (if find (activo lid usr) (prestamos self) = None \<or> find (tiene_id lid) (libros self) = None
      then prestamos self
      else update_first (activo lid usr) (\<lambda>q. q\<lparr>devuelto := True\<rparr>) (prestamos self))"
  by (cases flt)
     (simp_all add: devolver_libro_def guardar_datos_def Let_def multa_devuelto split: option.splits)

lemma sin_duplicados_paso:
  assumes "sin_duplicados self"
  shows "sin_duplicados (fst (snd (ejecutar self op hoy flt dsk)))"
proof (cases op)
  case (AgregarLibro lib)
  with assms show ?thesis by (simp add: sin_duplicados_def agregar_prestamos)
next
  case (PrestarLibro lid usr)
  show ?thesis
  proof (cases "rechazado self lid usr")
    case True
    with assms PrestarLibro show ?thesis by (simp add: sin_duplicados_def prestar_prestamos)
  next
    case False
    then have "\<not> list_ex (activo lid usr) (prestamos self)" by (simp add: rechazado_def)
    then have "(lid, usr) \<notin> clave ` set (filter pendiente (prestamos self))"
      by (auto simp: list_ex_iff activo_def clave_def pendiente_def)
    with assms False PrestarLibro show ?thesis
      by (simp add: sin_duplicados_def prestar_prestamos Prestamo_def Prestamo_init_def
          pendiente_def clave_def)
  qed
next
  case (DevolverLibro lid usr)
  have "\<forall>x. \<not> pendiente (x\<lparr>devuelto := True\<rparr>)" by (simp add: pendiente_def)
  from distinct_update_first
    [where Q = pendiente and f = "\<lambda>q. q\<lparr>devuelto := True\<rparr>" and k = clave
       and P = "activo lid usr" and xs = "prestamos self", OF this]
    assms DevolverLibro show ?thesis
    by (simp add: sin_duplicados_def devolver_prestamos)
qed

lemma sin_duplicados_correr:
  "sin_duplicados (fst st) \<Longrightarrow> sin_duplicados (fst (correr st ops))"
proof (induction ops arbitrary: st)
  case Nil
  then show ?case by simp
next
  case (Cons a ops)
  obtain op hoy flt where a: "a = (op, hoy, flt)" by (cases a) auto
  have "sin_duplicados (fst (snd (ejecutar (fst st) op hoy flt (snd st))))"
    using Cons.prems by (rule sin_duplicados_paso)
  from Cons.IH [OF this] a show ?case by simp
qed

lemma prestar_dos_veces:
  assumes "\<not> rechazado self lid usr"
  shows "case prestar_libro self lid usr hoy flt dsk of
           (r1, s1, d1) \<Rightarrow>
             prestar_libro s1 lid usr hoy' flt' d1 = (Returned False [YaTienePrestado usr], s1, d1)
             \<and> existencias s1 lid = map_option (\<lambda>s. s - 1) (existencias self lid)"
proof -
  from assms obtain lib where lib: "find (tiene_id lid) (libros self) = Some lib" "\<not> stock lib \<le> 0"
    and na: "\<not> list_ex (activo lid usr) (prestamos self)"
    by (auto simp: rechazado_def split: option.splits)
  have tl: "tiene_id lid lib"
    using lib(1) by (auto simp: find_Some_iff)
  have same: "find (tiene_id lid)
      (update_first (tiene_id lid) (\<lambda>l. l\<lparr>stock := stock l - 1\<rparr>) (libros self))
      = Some (lib\<lparr>stock := stock lib - 1\<rparr>)"
    using find_update_first_same [OF lib(1), of "\<lambda>l. l\<lparr>stock := stock l - 1\<rparr>"] tl
    by (simp add: tiene_id_def)
  show ?thesis
    using lib na same
    by (cases flt)
       (simp_all add: prestar_libro_def guardar_datos_def Let_def existencias_def
          Prestamo_def Prestamo_init_def activo_def)
qed

text \<open>
  Claim C5. If no pair of book id and borrower has two unreturned loans, then after any run
  of operations, whatever the dates and the fates of the writes, none has: each pair has at
  most one unreturned loan. And when a loan is not rejected, a second \<^verbatim>\<open>prestar_libro\<close> with
  the same book and borrower returns False and changes nothing, so the book's stock after
  the two calls is one less than before them.
\<close>

theorem un_prestamo_activo_por_par:
  "(sin_duplicados self \<longrightarrow>
      sin_duplicados (fst (correr (self, dsk) ops))
      \<and> length (filter (activo lid' usr') (prestamos (fst (correr (self, dsk) ops)))) \<le> 1)
   \<and> (\<not> rechazado self lid usr \<longrightarrow>
      (case prestar_libro self lid usr hoy flt dsk of
         (r1, s1, d1) \<Rightarrow>
           prestar_libro s1 lid usr hoy' flt' d1 = (Returned False [YaTienePrestado usr], s1, d1)
           \<and> existencias s1 lid = map_option (\<lambda>s. s - 1) (existencias self lid)))"
proof (intro conjI impI)
  assume inv: "sin_duplicados self"
  then have "sin_duplicados (fst (self, dsk))" by simp
  then show a: "sin_duplicados (fst (correr (self, dsk) ops))"
    by (rule sin_duplicados_correr)
  then show "length (filter (activo lid' usr') (prestamos (fst (correr (self, dsk) ops)))) \<le> 1"
    unfolding sin_duplicados_def by (rule sin_duplicados_count)
next
  assume "\<not> rechazado self lid usr"
  then show "case prestar_libro self lid usr hoy flt dsk of
         (r1, s1, d1) \<Rightarrow>
           prestar_libro s1 lid usr hoy' flt' d1 = (Returned False [YaTienePrestado usr], s1, d1)
           \<and> existencias s1 lid = map_option (\<lambda>s. s - 1) (existencias self lid)"
    by (rule prestar_dos_veces)
qed

theorem un_prestamo_activo_por_par_witness:
  "sin_duplicados vacia
   \<and> fst (correr (vacia, Absent) escenario) =
       \<lparr>libros = [libro_x\<lparr>stock := 1\<rparr>],
        prestamos = [(Prestamo 738000 1 ''alice'')\<lparr>devuelto := True\<rparr>, Prestamo 738002 1 ''bob'']\<rparr>
   \<and> sin_duplicados (fst (correr (vacia, Absent) escenario))
   \<and> \<not> rechazado con_libro 1 ''alice''
   \<and> prestar_libro (fst (snd (prestar_libro con_libro 1 ''alice'' 738000 NoFault Absent)))
        1 ''alice'' 738001 NoFault Absent
      = (Returned False [YaTienePrestado ''alice''],
         \<lparr>libros = [libro_x\<lparr>stock := 1\<rparr>], prestamos = [Prestamo 738000 1 ''alice'']\<rparr>, Absent)"
  using un_prestamo_activo_por_par [of vacia Absent escenario 1 "''alice''" 1 "''alice''" 738000 NoFault 738001 NoFault]
    un_prestamo_activo_por_par [of con_libro Absent "[]" 1 "''alice''" 1 "''alice''" 738000 NoFault 738001 NoFault]
  by (simp add: vacia_def con_libro_def libro_x_def escenario_def sin_duplicados_def rechazado_def
      agregar_libro_def prestar_libro_def devolver_libro_def guardar_datos_def
      tiene_id_def activo_def Prestamo_def Prestamo_init_def calcular_multa_def Let_def
      pendiente_def clave_def existencias_def)

section \<open>Stock conservation\<close>

lemma length_filter_update_first_less:
  "find P xs = Some x \<Longrightarrow> Q x \<Longrightarrow> \<not> Q (f x) \<Longrightarrow>
   length (filter Q (update_first P f xs)) + 1 = length (filter Q xs)"
  by (induction xs) (auto split: if_splits)

lemma length_filter_update_first_same:
  "\<forall>x. P x \<longrightarrow> Q (f x) = Q x \<Longrightarrow>
   length (filter Q (update_first P f xs)) = length (filter Q xs)"
  by (induction xs) auto

lemma find_append_Some: "find P xs = Some x \<Longrightarrow> find P (xs @ ys) = Some x"
  by (induction xs) (auto split: if_splits)

lemma agregar_libros:
  "libros (fst (snd (agregar_libro self lib flt dsk))) =
     (if list_ex (tiene_id (id_libro lib)) (libros self) then libros self
      else libros self @ [lib])"
  by (cases flt) (simp_all add: agregar_libro_def guardar_datos_def Let_def)

lemma prestar_libros:
  "libros (fst (snd (prestar_libro self lid usr hoy flt dsk))) =
     (if rechazado self lid usr then libros self
      else update_first (tiene_id lid) (\<lambda>l. l\<lparr>stock := stock l - 1\<rparr>) (libros self))"
  by (cases flt)
     (simp_all add: prestar_libro_def rechazado_def guardar_datos_def Let_def split: option.splits)

lemma devolver_libros:
  "libros (fst (snd (devolver_libro self lid usr hoy flt dsk))) =
     (if find (activo lid usr) (prestamos self) = None \<or> find (tiene_id lid) (libros self) = None
      then libros self
      else update_first (tiene_id lid) (\<lambda>l. l\<lparr>stock := stock l + 1\<rparr>) (libros self))"
  by (cases flt)
     (simp_all add: devolver_libro_def guardar_datos_def Let_def multa_devuelto split: option.splits)

lemma conservacion_paso:
  assumes "existencias self lid = Some s"
  shows "existencias (fst (snd (ejecutar self op hoy flt dsk))) lid =
           Some (s + prestados self lid - prestados (fst (snd (ejecutar self op hoy flt dsk))) lid)"
proof -
  from assms obtain lib where lib: "find (tiene_id lid) (libros self) = Some lib" "stock lib = s"
    by (auto simp: existencias_def)
  have tl: "tiene_id lid lib"
    using lib(1) by (auto simp: find_Some_iff)
  show ?thesis
  proof (cases op)
    case (AgregarLibro nuevo)
    with lib show ?thesis
      by (simp add: existencias_def prestados_def agregar_libros agregar_prestamos find_append_Some)
  next
    case (PrestarLibro j usr)
    show ?thesis
    proof (cases "rechazado self j usr")
      case True
      with lib PrestarLibro show ?thesis
        by (simp add: existencias_def prestados_def prestar_libros prestar_prestamos)
    next
      case False
      show ?thesis
      proof (cases "j = lid")
        case True
        have "find (tiene_id lid)
            (update_first (tiene_id lid) (\<lambda>l. l\<lparr>stock := stock l - 1\<rparr>) (libros self))
            = Some (lib\<lparr>stock := stock lib - 1\<rparr>)"
          using find_update_first_same [OF lib(1), of "\<lambda>l. l\<lparr>stock := stock l - 1\<rparr>"] tl
          by (simp add: tiene_id_def)
        with lib True False PrestarLibro show ?thesis
          by (simp add: existencias_def prestados_def prestar_libros prestar_prestamos
              Prestamo_def Prestamo_init_def)
      next
        case neq: False
        then have "find (tiene_id lid)
            (update_first (tiene_id j) (\<lambda>l. l\<lparr>stock := stock l - 1\<rparr>) (libros self))
            = find (tiene_id lid) (libros self)"
          by (simp add: tiene_id_def find_update_first_other)
        with lib neq False PrestarLibro show ?thesis
          by (simp add: existencias_def prestados_def prestar_libros prestar_prestamos
              Prestamo_def Prestamo_init_def)
      qed
    qed
  next
    case (DevolverLibro j usr)
    show ?thesis
    proof (cases "find (activo j usr) (prestamos self) = None \<or> find (tiene_id j) (libros self) = None")
      case True
      with lib DevolverLibro show ?thesis
        by (simp add: existencias_def prestados_def devolver_libros devolver_prestamos)
    next
      case False
      then obtain p where p: "find (activo j usr) (prestamos self) = Some p" by auto
      then have ap: "activo j usr p" by (auto simp: find_Some_iff)
      show ?thesis
      proof (cases "j = lid")
        case True
        have a: "find (tiene_id lid)
            (update_first (tiene_id lid) (\<lambda>l. l\<lparr>stock := stock l + 1\<rparr>) (libros self))
            = Some (lib\<lparr>stock := stock lib + 1\<rparr>)"
          using find_update_first_same [OF lib(1), of "\<lambda>l. l\<lparr>stock := stock l + 1\<rparr>"] tl
          by (simp add: tiene_id_def)
        have "length (filter (\<lambda>p. libro_id p = lid \<and> \<not> devuelto p)
                (update_first (activo j usr) (\<lambda>q. q\<lparr>devuelto := True\<rparr>) (prestamos self))) + 1
            = length (filter (\<lambda>p. libro_id p = lid \<and> \<not> devuelto p) (prestamos self))"
          using p ap True by (intro length_filter_update_first_less) (auto simp: activo_def)
        with a lib True False DevolverLibro show ?thesis
          by (simp add: existencias_def prestados_def devolver_libros devolver_prestamos)
      next
        case neq: False
        then have a: "find (tiene_id lid)
            (update_first (tiene_id j) (\<lambda>l. l\<lparr>stock := stock l + 1\<rparr>) (libros self))
            = find (tiene_id lid) (libros self)"
          by (simp add: tiene_id_def find_update_first_other)
        have "length (filter (\<lambda>p. libro_id p = lid \<and> \<not> devuelto p)
                (update_first (activo j usr) (\<lambda>q. q\<lparr>devuelto := True\<rparr>) (prestamos self)))
            = length (filter (\<lambda>p. libro_id p = lid \<and> \<not> devuelto p) (prestamos self))"
          using neq by (intro length_filter_update_first_same) (auto simp: activo_def)
        with a lib neq False DevolverLibro show ?thesis
          by (simp add: existencias_def prestados_def devolver_libros devolver_prestamos)
      qed
    qed
  qed
qed

lemma conservacion_correr:
  "existencias (fst st) lid = Some s \<Longrightarrow>
   existencias (fst (correr st ops)) lid =
     Some (s + prestados (fst st) lid - prestados (fst (correr st ops)) lid)"
proof (induction ops arbitrary: st s)
  case Nil
  then show ?case by simp
next
  case (Cons a ops)
  obtain op hoy flt where a: "a = (op, hoy, flt)" by (cases a) auto
  let ?st1 = "snd (ejecutar (fst st) op hoy flt (snd st))"
  have "existencias (fst ?st1) lid = Some (s + prestados (fst st) lid - prestados (fst ?st1) lid)"
    using Cons.prems by (rule conservacion_paso)
  from Cons.IH [OF this] a show ?case by simp
qed

text \<open>
  Claim C6. For a book of the catalog and any run of operations, the book's final stock is
  its initial stock minus the number of its loans that became unreturned during the run
  (unreturned at the end minus unreturned at the start); from a state where the book has no
  unreturned loan, it is the initial stock minus the number of the book's unreturned loans.
\<close>

theorem conservacion_de_existencias:
  "existencias self lid = Some s \<longrightarrow>
     existencias (fst (correr (self, dsk) ops)) lid =
       Some (s - (prestados (fst (correr (self, dsk) ops)) lid - prestados self lid))
     \<and> (prestados self lid = 0 \<longrightarrow>
          existencias (fst (correr (self, dsk) ops)) lid =
            Some (s - prestados (fst (correr (self, dsk) ops)) lid))"
proof
  assume "existencias self lid = Some s"
  then have "existencias (fst (self, dsk)) lid = Some s" by simp
  from conservacion_correr [OF this, of ops]
  show "existencias (fst (correr (self, dsk) ops)) lid =
       Some (s - (prestados (fst (correr (self, dsk) ops)) lid - prestados self lid))
     \<and> (prestados self lid = 0 \<longrightarrow>
          existencias (fst (correr (self, dsk) ops)) lid =
            Some (s - prestados (fst (correr (self, dsk) ops)) lid))"
    by simp
qed

theorem conservacion_de_existencias_witness:
  "existencias con_libro 1 = Some 2 \<and> prestados con_libro 1 = 0
   \<and> prestados (fst (correr (con_libro, Absent) (tl escenario))) 1 = 1
   \<and> existencias (fst (correr (con_libro, Absent) (tl escenario))) 1 = Some 1"
  using conservacion_de_existencias [of con_libro 1 2 Absent "tl escenario"]
  by (simp add: con_libro_def libro_x_def escenario_def rechazado_def
      agregar_libro_def prestar_libro_def devolver_libro_def guardar_datos_def
      tiene_id_def activo_def Prestamo_def Prestamo_init_def calcular_multa_def Let_def
      existencias_def prestados_def)

section \<open>Dates on file\<close>

text \<open>
  A date from 1000-01-01 to \<^verbatim>\<open>date.max\<close> is written as a year of four digits, a month and a
  day that exist, and \<^const>\<open>strptime\<close> reads the same date back.
\<close>

lemma small_int_cases:
  fixes k :: int
  assumes "0 \<le> k" "k < 10"
  shows "k = 0 \<or> k = 1 \<or> k = 2 \<or> k = 3 \<or> k = 4 \<or> k = 5 \<or> k = 6 \<or> k = 7 \<or> k = 8 \<or> k = 9"
  using assms by arith

lemma mod10_cases:
  fixes x :: int
  shows "x mod 10 = 0 \<or> x mod 10 = 1 \<or> x mod 10 = 2 \<or> x mod 10 = 3 \<or> x mod 10 = 4
    \<or> x mod 10 = 5 \<or> x mod 10 = 6 \<or> x mod 10 = 7 \<or> x mod 10 = 8 \<or> x mod 10 = 9"
  by (rule small_int_cases) simp_all

lemma digit_char_facts:
  "is_digit (digit_char (x mod 10)) \<and> digit_val (digit_char (x mod 10)) = x mod 10
   \<and> digit_char (x mod 10) \<noteq> CHR ''-''"
  using mod10_cases [of x]
  by (elim disjE) (simp_all add: digit_char_def digits_def is_digit_def digit_val_def)

lemma days_before_year_cycles:
  fixes a b c e :: int
  assumes "0 \<le> b" "b \<le> 3" "0 \<le> c" "c \<le> 24" "0 \<le> e" "e \<le> 3"
  shows "days_before_year (400 * a + 100 * b + 4 * c + e + 1) =
           146097 * a + 36524 * b + 1461 * c + 365 * e"
proof -
  let ?k = "400 * a + 100 * b + 4 * c + e"
  have d4: "?k div 4 = 100 * a + 25 * b + c"
    using assms by (intro int_div_pos_eq [where r = e]) auto
  have d100: "?k div 100 = 4 * a + b"
    using assms by (intro int_div_pos_eq [where r = "4 * c + e"]) auto
  have d400: "?k div 400 = a"
    using assms by (intro int_div_pos_eq [where r = "100 * b + 4 * c + e"]) auto
  show ?thesis
    unfolding days_before_year_def using d4 d100 d400 by simp
qed

lemma is_leap_cycles:
  fixes a b c :: int
  assumes "0 \<le> b" "b \<le> 3" "0 \<le> c" "c \<le> 24" "c = 24 \<longrightarrow> b = 3"
  shows "is_leap (400 * a + 100 * b + 4 * c + 3 + 1)"
proof -
  let ?y = "400 * a + 100 * b + 4 * c + 3 + 1"
  have m4: "?y mod 4 = 0"
    by (intro int_mod_pos_eq [where q = "100 * a + 25 * b + c + 1"]) auto
  show ?thesis
  proof (cases "c = 24")
    case True
    with assms have "b = 3" by simp
    with True have "?y mod 400 = 0"
      by (intro int_mod_pos_eq [where q = "a + 1"]) auto
    with m4 show ?thesis by (simp add: is_leap_def)
  next
    case False
    with assms have "c \<le> 23" by simp
    with assms have "?y mod 100 = 4 * c + 4"
      by (intro int_mod_pos_eq [where q = "4 * a + b"]) auto
    with assms m4 show ?thesis by (simp add: is_leap_def)
  qed
qed

lemma month_of_valid:
  assumes "1 \<le> doy" "doy \<le> 365 + (if is_leap y then 1 else 0)"
  shows "1 \<le> month_of y doy \<and> month_of y doy \<le> 12
         \<and> 1 \<le> doy - days_before_month y (month_of y doy)
         \<and> doy - days_before_month y (month_of y doy) \<le> days_in_month y (month_of y doy)"
proof (cases "is_leap y")
  case True
  with assms show ?thesis
    by (simp add: month_of_def days_before_month_def days_in_month_def)
next
  case False
  with assms show ?thesis
    by (simp add: month_of_def days_before_month_def days_in_month_def)
qed

lemma ord2ymd_valid:
  assumes "1 \<le> n" "n \<le> 3652059" "ord2ymd n = (y, m, d)"
  shows "1 \<le> y \<and> y \<le> 9999 \<and> 1 \<le> m \<and> m \<le> 12 \<and> 1 \<le> d \<and> d \<le> days_in_month y m
         \<and> ymd2ord y m d = n \<and> (364878 \<le> n \<longrightarrow> 1000 \<le> y)"
proof -
  define n0 where "n0 = n - 1"
  define a where "a = n0 div 146097"
  define r where "r = n0 mod 146097"
  define q1 where "q1 = r div 36524"
  define b where "b = min 3 q1"
  define r2 where "r2 = r - 36524 * b"
  define c where "c = r2 div 1461"
  define r3 where "r3 = r2 mod 1461"
  define q3 where "q3 = r3 div 365"
  define e where "e = min 3 q3"
  define r1 where "r1 = r3 - 365 * e"
  define Y where "Y = 400 * a + 100 * b + 4 * c + e + 1"
  define M where "M = month_of Y (r1 + 1)"
  have n0: "0 \<le> n0" "n0 \<le> 3652058" using assms by (simp_all add: n0_def)
  have r: "n0 = 146097 * a + r" "0 \<le> r" "r < 146097"
    by (simp_all add: a_def r_def)
  have a: "0 \<le> a" "a \<le> 24" using n0 r by linarith+
  have q1: "r = 36524 * q1 + r mod 36524" "0 \<le> r mod 36524" "r mod 36524 < 36524"
    by (simp_all add: q1_def)
  have q1b: "0 \<le> q1" "q1 \<le> 4" using r q1 by linarith+
  have b: "0 \<le> b" "b \<le> 3" using q1b by (simp_all add: b_def)
  have r2: "0 \<le> r2" "r2 \<le> 36524" "r2 = 36524 \<longrightarrow> b = 3" "r = 36524 * b + r2"
    using r q1 q1b by (auto simp: r2_def b_def min_def)
  have c: "r2 = 1461 * c + r3" "0 \<le> r3" "r3 < 1461"
    by (simp_all add: c_def r3_def)
  have cb: "0 \<le> c" "c \<le> 24" using r2 c by linarith+
  have q3: "r3 = 365 * q3 + r3 mod 365" "0 \<le> r3 mod 365" "r3 mod 365 < 365"
    by (simp_all add: q3_def)
  have q3b: "0 \<le> q3" "q3 \<le> 4" using c q3 by linarith+
  have e: "0 \<le> e" "e \<le> 3" using q3b by (simp_all add: e_def)
  have r1: "0 \<le> r1" "r1 \<le> 365" "r1 = 365 \<longrightarrow> e = 3 \<and> r3 = 1460" "r3 = 365 * e + r1"
    using c q3 q3b by (auto simp: r1_def e_def min_def)
  have dby: "days_before_year Y = 146097 * a + 36524 * b + 1461 * c + 365 * e"
    unfolding Y_def using b cb e by (rule days_before_year_cycles)
  have total: "days_before_year Y + r1 + 1 = n"
    using dby r r2 c r1 by (simp add: n0_def)
  have leap: "r1 = 365 \<longrightarrow> is_leap Y"
  proof
    assume h: "r1 = 365"
    with r1 have e3: "e = 3" and "r3 = 1460" by simp_all
    with c cb r2 have "c = 24 \<longrightarrow> b = 3" by auto
    from is_leap_cycles [OF b cb this] e3 show "is_leap Y" by (simp add: Y_def)
  qed
  have doy: "1 \<le> r1 + 1" "r1 + 1 \<le> 365 + (if is_leap Y then 1 else 0)"
    using r1 leap by auto
  note mv = month_of_valid [OF doy]
  have Yb: "1 \<le> Y" "Y \<le> 9999"
  proof -
    show "1 \<le> Y" using a b cb e by (simp add: Y_def)
    have le: "146097 * a + 36524 * b + 1461 * c + 365 * e \<le> 3652058"
      using n0 r r2 c r1 by simp
    show "Y \<le> 9999"
    proof (cases "a \<le> 23")
      case True
      with b cb e show ?thesis by (simp add: Y_def)
    next
      case False
      with a have "a = 24" by simp
      with le b cb e show ?thesis unfolding Y_def by linarith
    qed
  qed
  have Y1000: "364878 \<le> n \<longrightarrow> 1000 \<le> Y"
  proof
    assume big: "364878 \<le> n"
    with total dby
    have lb: "364878 \<le> 146097 * a + 36524 * b + 1461 * c + 365 * e + r1 + 1" by simp
    have e2: "e \<le> 2 \<longrightarrow> r1 \<le> 364" using r1 by auto
    show "1000 \<le> Y"
    proof (rule ccontr)
      assume "\<not> 1000 \<le> Y"
      then have small: "400 * a + 100 * b + 4 * c + e \<le> 998" by (simp add: Y_def)
      with a b cb e have a2: "a \<le> 2" by linarith
      show False
      proof (cases "a \<le> 1")
        case True
        with lb b cb e r1 show False by linarith
      next
        case False
        with a2 have a_eq: "a = 2" by simp
        with small have s2: "100 * b + 4 * c + e \<le> 198" by simp
        with cb e have b1: "b \<le> 1" by linarith
        show False
        proof (cases "b = 0")
          case True
          with a_eq lb cb e r1 show False by linarith
        next
          case False
          with b b1 have b_eq: "b = 1" by simp
          with s2 have s3: "4 * c + e \<le> 98" by simp
          show False
          proof (cases "c \<le> 23")
            case True
            with a_eq b_eq lb e r1 show False by linarith
          next
            case False
            with cb have c_eq: "c = 24" by simp
            with s3 have "e \<le> 2" by simp
            with e2 have "e \<le> 2" "r1 \<le> 364" by simp_all
            with a_eq b_eq c_eq lb show False by linarith
          qed
        qed
      qed
    qed
  qed
  have eq: "ord2ymd n = (Y, M, r1 + 1 - days_before_month Y M)"
    unfolding ord2ymd_def Let_def Y_def M_def r1_def e_def q3_def r3_def c_def r2_def b_def
        q1_def r_def a_def n0_def ..
  with assms(3) have "y = Y" "m = M" "d = r1 + 1 - days_before_month Y M" by auto
  with mv Yb total Y1000 show ?thesis
    by (simp add: M_def ymd2ord_def)
qed

lemma split_dash_fecha:
  "split_dash (pad4 y @ CHR ''-'' # pad2 m @ CHR ''-'' # pad2 d) = [pad4 y, pad2 m, pad2 d]"
  by (simp add: pad4_def pad2_def digit_char_facts)

lemma filter_digits_pad:
  "filter is_digit (pad4 y) = pad4 y" "filter is_digit (pad2 k) = pad2 k"
  by (simp_all add: pad4_def pad2_def digit_char_facts)

lemma mod10_small:
  fixes k :: int
  assumes "0 \<le> k" "k \<le> 9"
  shows "k mod 10 = k"
  using assms by simp

lemma pad2_field:
  assumes "0 \<le> k" "k \<le> 99"
  shows "field_val (pad2 k) = k"
proof -
  have "k div 10 \<le> 99 div 10" using assms(2) by (intro zdiv_mono1) simp_all
  moreover have "0 \<le> k div 10" using assms(1) by simp
  ultimately have "k div 10 mod 10 = k div 10" by (intro mod10_small) simp_all
  moreover have "10 * (k div 10) + k mod 10 = k" by simp
  moreover have "field_val (pad2 k) = 10 * (k div 10 mod 10) + k mod 10"
    unfolding field_val_def filter_digits_pad by (simp add: pad2_def digit_char_facts)
  ultimately show ?thesis by simp
qed

lemma pad4_field:
  assumes "0 \<le> y" "y \<le> 9999"
  shows "length (pad4 y) = 4 \<and> list_all is_digit (pad4 y) \<and> field_val (pad4 y) = y"
proof -
  have d100: "y div 100 = y div 10 div 10" and d1000: "y div 1000 = y div 10 div 10 div 10"
    by (simp_all add: zdiv_zmult2_eq [symmetric])
  have "y div 1000 \<le> 9999 div 1000" using assms(2) by (intro zdiv_mono1) simp_all
  moreover have "0 \<le> y div 1000" using assms(1) by simp
  ultimately have "y div 1000 mod 10 = y div 1000" by (intro mod10_small) simp_all
  then have top: "y div 10 div 10 div 10 mod 10 = y div 10 div 10 div 10"
    unfolding d1000 .
  have s1: "10 * (y div 10) + y mod 10 = y" by simp
  have s2: "10 * (y div 10 div 10) + y div 10 mod 10 = y div 10" by simp
  have s3: "10 * (y div 10 div 10 div 10) + y div 10 div 10 mod 10 = y div 10 div 10" by simp
  have "field_val (pad4 y) =
      10 * (10 * (10 * (y div 1000 mod 10) + y div 100 mod 10) + y div 10 mod 10) + y mod 10"
    unfolding field_val_def filter_digits_pad by (simp add: pad4_def digit_char_facts)
  also have "\<dots> = 10 * (10 * (10 * (y div 10 div 10 div 10) + y div 10 div 10 mod 10)
      + y div 10 mod 10) + y mod 10"
    unfolding d100 d1000 top ..
  also have "\<dots> = y" unfolding s3 s2 s1 ..
  finally show ?thesis by (simp add: pad4_def digit_char_facts)
qed

lemma month_cases:
  fixes m :: int
  assumes "1 \<le> m" "m \<le> 12"
  shows "m = 1 \<or> m = 2 \<or> m = 3 \<or> m = 4 \<or> m = 5 \<or> m = 6 \<or> m = 7 \<or> m = 8 \<or> m = 9
    \<or> m = 10 \<or> m = 11 \<or> m = 12"
  using assms by arith

lemma month_token_pad2:
  assumes "1 \<le> m" "m \<le> 12"
  shows "month_token (pad2 m)"
  using month_cases [OF assms]
  by (elim disjE) (simp_all add: pad2_def digit_char_def digits_def nonzero_digit_def is_digit_def)

lemma day_cases:
  fixes d :: int
  assumes "1 \<le> d" "d \<le> 31"
  shows "d = 1 \<or> d = 2 \<or> d = 3 \<or> d = 4 \<or> d = 5 \<or> d = 6 \<or> d = 7 \<or> d = 8 \<or> d = 9
    \<or> d = 10 \<or> d = 11 \<or> d = 12 \<or> d = 13 \<or> d = 14 \<or> d = 15 \<or> d = 16 \<or> d = 17
    \<or> d = 18 \<or> d = 19 \<or> d = 20 \<or> d = 21 \<or> d = 22 \<or> d = 23 \<or> d = 24 \<or> d = 25
    \<or> d = 26 \<or> d = 27 \<or> d = 28 \<or> d = 29 \<or> d = 30 \<or> d = 31"
  using assms by arith

lemma day_token_pad2:
  assumes "1 \<le> d" "d \<le> 31"
  shows "day_token (pad2 d)"
  using day_cases [OF assms]
  by (elim disjE) (simp_all add: pad2_def digit_char_def digits_def nonzero_digit_def is_digit_def)

lemma days_in_month_le: "days_in_month y m \<le> 31"
  by (simp add: days_in_month_def)

lemma digit_char_zero: "(digit_char (x mod 10) = CHR ''0'') = (x mod 10 = 0)"
  using mod10_cases [of x]
  by (elim disjE) (simp_all add: digit_char_def digits_def)

lemma year_text_pad4:
  assumes "1000 \<le> y" "y \<le> 9999"
  shows "year_text y = pad4 y"
proof -
  have "y div 1000 \<le> 9999 div 1000" using assms(2) by (intro zdiv_mono1) simp_all
  moreover have "1000 div 1000 \<le> y div 1000" using assms(1) by (intro zdiv_mono1) simp_all
  ultimately have "y div 1000 mod 10 = y div 1000" "1 \<le> y div 1000"
    by (simp_all add: mod10_small)
  then have "y div 1000 mod 10 \<noteq> 0" by simp
  then have "digit_char (y div 1000 mod 10) \<noteq> CHR ''0''"
    by (simp add: digit_char_zero)
  then show ?thesis by (simp add: year_text_def pad4_def)
qed

lemma strptime_strftime:
  assumes "fecha_1000 \<le> n" "n \<le> date_max"
  shows "strptime (strftime n) = Inr n"
proof -
  obtain y m d where ymd: "ord2ymd n = (y, m, d)" by (cases "ord2ymd n") auto
  from assms have n: "1 \<le> n" "n \<le> 3652059" and big: "364878 \<le> n"
    by (simp_all add: fecha_1000_def date_max_def)
  from ord2ymd_valid [OF n ymd] big
  have v: "1 \<le> y" "y \<le> 9999" "1 \<le> m" "m \<le> 12" "1 \<le> d" "d \<le> days_in_month y m"
    "ymd2ord y m d = n" and y1000: "1000 \<le> y" by simp_all
  have yt: "year_text y = pad4 y" using y1000 v(2) by (rule year_text_pad4)
  from v(6) days_in_month_le [of y m] have d31: "d \<le> 31" by linarith
  have y4: "length (pad4 y) = 4" "list_all is_digit (pad4 y)" "field_val (pad4 y) = y"
    using pad4_field [of y] v by simp_all
  have fm: "field_val (pad2 m) = m" using v by (intro pad2_field) simp_all
  have fd: "field_val (pad2 d) = d" using v d31 by (intro pad2_field) simp_all
  have tm: "month_token (pad2 m)" using v by (intro month_token_pad2)
  have td: "day_token (pad2 d)" using v d31 by (intro day_token_pad2)
  show ?thesis
    unfolding strptime_def strftime_def ymd
    using y4 fm fd tm td v by (simp add: yt split_dash_fecha)
qed

section \<open>Saving, then loading\<close>

lemma Libro_de_to_dict: "Libro_de (to_dict l) = Inr (Some l)"
  by (simp add: Libro_de_def to_dict_def subscript_def dict_get_def bind_e_def as_int_def
      as_str_def)

lemma Prestamo_de_prestamo_dict:
  assumes "fechas_desde_1000 p"
  shows "Prestamo_de hoy (prestamo_dict p) = Inr (Some p)"
proof -
  have a: "strptime (strftime (fecha_prestamo p)) = Inr (fecha_prestamo p)"
    using assms by (intro strptime_strftime) (simp_all add: fechas_desde_1000_def)
  have b: "strptime (strftime (fecha_devolucion p)) = Inr (fecha_devolucion p)"
    using assms by (intro strptime_strftime) (simp_all add: fechas_desde_1000_def)
  show ?thesis
    by (simp add: Prestamo_de_def prestamo_dict_def subscript_def dict_get_def bind_e_def
        as_int_def as_str_def as_bool_def strptime_de_def a b Prestamo_def Prestamo_init_def)
qed

lemma map_e_map:
  "\<forall>x \<in> set xs. f (g x) = Inr (Some x) \<Longrightarrow> map_e f (map g xs) = Inr (map Some xs)"
  by (induction xs) (simp_all add: bind_e_def)

lemma todos_map_Some: "todos (map Some xs) = Some xs"
  by (induction xs) simp_all

text \<open>
  A loan of the year 999 has dates of Python, and a data file can hold it. Saved, its date
  is written 999-12-17; loading what was saved then ends with the \<^verbatim>\<open>ValueError\<close> of
  \<^verbatim>\<open>strptime\<close>, which nothing handles, and not with the state that was saved.
\<close>

theorem guardar_cargar_counterexample:
  "list_all fechas_de_python (prestamos con_prestamo_antiguo)
   \<and> strftime 364863 = ''999-12-17''
   \<and> strptime ''999-12-17'' = Inl ValueError
   \<and> strptime ''0999-12-17'' = Inr 364863
   \<and> cargar_datos vacia 738100 (snd (guardar_datos con_prestamo_antiguo NoFault Absent))
       = Fallo ValueError
   \<and> cargar_datos vacia 738100 (snd (guardar_datos con_prestamo_antiguo NoFault Absent))
       \<noteq> Cargada con_prestamo_antiguo []"
proof -
  have v: "list_all fechas_de_python (prestamos con_prestamo_antiguo)"
    by (simp add: con_prestamo_antiguo_def fechas_de_python_def Prestamo_def Prestamo_init_def
        date_min_def date_max_def)
  have s: "strftime 364863 = ''999-12-17''"
    by (simp add: strftime_def ord2ymd_def month_of_def days_before_month_def is_leap_def
        year_text_def pad4_def pad2_def digit_char_def digits_def Let_def)
  have p: "strptime ''999-12-17'' = Inl ValueError"
    by (simp add: strptime_def)
  have q: "strptime ''0999-12-17'' = Inr 364863"
    by (simp add: strptime_def field_val_def is_digit_def digit_val_def digits_def
        nonzero_digit_def days_in_month_def ymd2ord_def days_before_year_def
        days_before_month_def is_leap_def Let_def)
  have c: "cargar_datos vacia 738100 (snd (guardar_datos con_prestamo_antiguo NoFault Absent))
      = Fallo ValueError"
    by (simp add: guardar_datos_def datos_def cargar_datos_def con_prestamo_antiguo_def
        get_default_def dict_get_def iterar_def bind_e_def to_dict_def prestamo_dict_def
        Libro_de_def Prestamo_de_def subscript_def as_int_def as_str_def as_bool_def
        strptime_de_def Prestamo_def Prestamo_init_def s p)
  from v s p q c show ?thesis by simp
qed

text \<open>
  Claim C7, amended. For every state whose loans carry dates from 1000-01-01 to
  \<^verbatim>\<open>date.max\<close>, \<^verbatim>\<open>guardar_datos\<close> followed by \<^verbatim>\<open>cargar_datos\<close>, at any later date and into
  any library object, gives back the state itself: the same books with their ids, titles,
  authors and stocks, and the same loans with their book ids, borrowers, two dates and
  returned flags, in the same order.
\<close>

theorem guardar_cargar_desde_1000:
  "list_all fechas_desde_1000 (prestamos self) \<longrightarrow>
     guardar_datos self NoFault dsk = (None, Document (datos self))
     \<and> cargar_datos otra hoy (snd (guardar_datos self NoFault dsk)) = Cargada self []"
proof
  assume v: "list_all fechas_desde_1000 (prestamos self)"
  have l: "map_e Libro_de (map to_dict (libros self)) = Inr (map Some (libros self))"
    by (rule map_e_map) (simp add: Libro_de_to_dict)
  have p: "map_e (Prestamo_de hoy) (map prestamo_dict (prestamos self))
      = Inr (map Some (prestamos self))"
    using v by (intro map_e_map) (simp add: Prestamo_de_prestamo_dict list_all_iff)
  have "cargar_datos otra hoy (Document (datos self))
      = Cargada \<lparr>libros = libros self, prestamos = prestamos self\<rparr> []"
    by (simp add: cargar_datos_def datos_def get_default_def dict_get_def iterar_def bind_e_def
        l p todos_map_Some)
  then show "guardar_datos self NoFault dsk = (None, Document (datos self))
     \<and> cargar_datos otra hoy (snd (guardar_datos self NoFault dsk)) = Cargada self []"
    by (simp add: guardar_datos_def)
qed

theorem guardar_cargar_desde_1000_witness:
  "list_all fechas_desde_1000 (prestamos con_prestamo)
   \<and> strftime 738000 = ''2021-07-29'' \<and> strftime 738014 = ''2021-08-12''
   \<and> strftime 3652059 = ''9999-12-31'' \<and> strftime 364878 = ''1000-01-01''
   \<and> strptime ''2021-08-12'' = Inr 738014
   \<and> cargar_datos vacia 738100 (snd (guardar_datos con_prestamo NoFault Absent))
       = Cargada con_prestamo []"
proof -
  have v: "list_all fechas_desde_1000 (prestamos con_prestamo)"
    by (simp add: con_prestamo_def fechas_desde_1000_def Prestamo_def Prestamo_init_def
        fecha_1000_def date_max_def)
  have s: "strftime 738000 = ''2021-07-29''" "strftime 738014 = ''2021-08-12''"
    "strftime 3652059 = ''9999-12-31''" "strftime 364878 = ''1000-01-01''"
    by (simp_all add: strftime_def ord2ymd_def month_of_def days_before_month_def is_leap_def
        year_text_def pad4_def pad2_def digit_char_def digits_def Let_def)
  have p: "strptime ''2021-08-12'' = Inr 738014"
    by (simp add: strptime_def field_val_def is_digit_def digit_val_def digits_def
        nonzero_digit_def days_in_month_def ymd2ord_def days_before_year_def
        days_before_month_def is_leap_def Let_def)
  note c = guardar_cargar_desde_1000
    [of con_prestamo Absent vacia 738100, THEN mp, OF v, THEN conjunct2]
  from v s p c show ?thesis
    by (intro conjI) assumption+
qed

section \<open>Loading the data file\<close>

text \<open>
  Claim C9. A missing file and a text that is not JSON give the empty state and a warning.
  A JSON text of another shape is not handled: a top-level list raises \<^verbatim>\<open>AttributeError\<close>,
  a book without title raises \<^verbatim>\<open>KeyError\<close>, a number in place of the list of books raises
  \<^verbatim>\<open>TypeError\<close>, and a loan whose date is not a date raises \<^verbatim>\<open>ValueError\<close>; each leaves
  \<^verbatim>\<open>cargar_datos\<close> and \<^verbatim>\<open>Biblioteca.__init__\<close>.
\<close>

theorem cargar_datos_esquema_invalido:
  "Biblioteca_init 738000 Absent = Cargada vacia [SinDatosPrevios]
   \<and> Biblioteca_init 738000 Malformed = Cargada vacia [ErrorLectura]
   \<and> Biblioteca_init 738000 (Document (JArr [])) = Fallo AttributeError
   \<and> Biblioteca_init 738000 (Document (JObj [(''libros'', JArr [JObj [(''id'', JInt 1)]])]))
       = Fallo KeyError
   \<and> Biblioteca_init 738000 (Document (JObj [(''libros'', JInt 3)])) = Fallo TypeError
   \<and> Biblioteca_init 738000
       (Document (JObj [(''prestamos'', JArr [JObj [(''libro_id'', JInt 1),
          (''usuario'', JStr ''alice''), (''fecha_prestamo'', JStr ''ayer'')]])]))
       = Fallo ValueError"
  by (simp add: Biblioteca_init_def cargar_datos_def vacia_def bind_e_def get_default_def
      iterar_def subscript_def dict_get_def Libro_de_def Prestamo_de_def strptime_de_def
      strptime_def)


end
